theory Spec2Isabelle
  imports Main "HOL-Library.Word"
begin

unbundle bit_operations_syntax

section \<open>Go values used by the client\<close>

text \<open>
  A Go \<open>string\<close> is a sequence of bytes; it is modelled as \<open>string\<close> (a list of
  8-bit \<open>char\<close>s), and \<open>[]byte(s)\<close> is the same list. Go's \<open>int\<close> is taken at its
  64-bit width; it is modelled as \<open>int\<close>, with the range written out where the library
  checks it.
\<close>

definition byte :: "char \<Rightarrow> nat" where
  "byte c = of_char c"

definition is_digit :: "char \<Rightarrow> bool" where
  "is_digit c = (48 \<le> byte c \<and> byte c \<le> 57)"

definition is_upper :: "char \<Rightarrow> bool" where
  "is_upper c = (65 \<le> byte c \<and> byte c \<le> 90)"

definition is_lower :: "char \<Rightarrow> bool" where
  "is_lower c = (97 \<le> byte c \<and> byte c \<le> 122)"

text \<open>
  \<open>ResponseMeta\<close> (realtime.go, lines 262-266); \<open>InstagramError\<close> is declared as
  \<open>type InstagramError ResponseMeta\<close> (line 378), the same struct.
\<close>

record ResponseMeta =
  ErrorType :: string
  Code :: int
  ErrorMessage :: string

type_synonym InstagramError = ResponseMeta

definition zero_InstagramError :: InstagramError where
  "zero_InstagramError = \<lparr>ErrorType = [], Code = 0, ErrorMessage = []\<rparr>"

record ResponsePagination =
  NextURL :: string
  NextMaxID :: string

record Ratelimit =
  Limit :: int
  Remaining :: int

text \<open>
  Go's \<open>error\<close> interface values. \<open>None :: error option\<close> is the nil interface.
  \<open>InstagramErrorRef p\<close> is an interface holding a \<open>*InstagramError\<close>; the pointer
  itself may be nil (\<open>p = None\<close>), and the interface is then still not nil.
  \<open>LibraryError\<close> carries the message of an error made by a library call whose
  implementation is taken as a parameter (transport, URL parsing, body reads, the
  envelope decoder). \<open>ErrorString\<close> is an error made by \<open>errors.New\<close>. The
  error of \<open>strconv.Atoi\<close> is a \<open>*NumError\<close> or nil; \<open>GetRatelimit\<close>, which
  only passes it on, has \<open>NumError option\<close> as its error type.
\<close>

datatype num_err = ErrSyntax | ErrRange

record NumError =
  Func :: string
  Num :: string
  Err :: num_err

datatype error =
    LibraryError string
  | InstagramErrorRef "InstagramError option"
  | ErrorString string

datatype panic = NilPointerDereference

section \<open>strconv.Atoi\<close>

definition digit_val :: "char \<Rightarrow> nat" where
  "digit_val c = byte c - 48"

definition parse_digits :: "string \<Rightarrow> nat" where
  "parse_digits s = foldl (\<lambda>n c. 10 * n + digit_val c) 0 s"

text \<open>
  \<open>strconv.ParseInt(s, 10, 64)\<close>: an optional sign, then one or more decimal digits.
  A syntax error returns 0; a value outside the 64-bit range returns the nearest bound
  together with \<open>ErrRange\<close>.
\<close>

definition ParseInt :: "string \<Rightarrow> int \<times> num_err option" where
  "ParseInt s =
     (if s = [] then (0, Some ErrSyntax)
      else
        let neg = (hd s = CHR ''-'');
            ds = (if hd s = CHR ''+'' \<or> hd s = CHR ''-'' then tl s else s)
        in if ds = [] \<or> \<not> list_all is_digit ds then (0, Some ErrSyntax)
           else
             let un = parse_digits ds
             in if \<not> neg \<and> 2 ^ 63 \<le> un then (2 ^ 63 - 1, Some ErrRange)
                else if neg \<and> 2 ^ 63 < un then (- (2 ^ 63), Some ErrRange)
                else (if neg then - int un else int un, None))"

definition Atoi :: "string \<Rightarrow> int \<times> NumError option" where
  "Atoi s =
     (case ParseInt s of
        (n, None) \<Rightarrow> (n, None)
      | (n, Some e) \<Rightarrow> (n, Some \<lparr>Func = ''Atoi'', Num = s, Err = e\<rparr>))"

text \<open>
  Two notions the specification of the rate-limit accessor uses: a header value is
  numeric when it is an optional sign followed by one or more decimal digits, and
  \<open>decimal\<close> is the integer such a text denotes.
\<close>

definition numeric :: "string \<Rightarrow> bool" where
  "numeric s =
     (case s of
        [] \<Rightarrow> False
      | c # cs \<Rightarrow>
          if c = CHR ''+'' \<or> c = CHR ''-'' then cs \<noteq> [] \<and> list_all is_digit cs
          else list_all is_digit s)"

definition decimal :: "string \<Rightarrow> int" where
  "decimal s =
     (case s of
        [] \<Rightarrow> 0
      | c # cs \<Rightarrow>
          if c = CHR ''-'' then - int (parse_digits cs)
          else if c = CHR ''+'' then int (parse_digits cs)
          else int (parse_digits s))"

section \<open>HTTP messages\<close>

text \<open>
  \<open>http.Header\<close> is \<open>map[string][]string\<close>. \<open>Get\<close> returns the first value stored
  under the canonical form of the key, or the empty string; every key the client uses
  is already canonical. \<open>Add\<close> appends to the values of the key.
\<close>

type_synonym Header = "string \<rightharpoonup> string list"

definition Header_Get :: "Header \<Rightarrow> string \<Rightarrow> string" where
  "Header_Get h k = (case h k of None \<Rightarrow> [] | Some [] \<Rightarrow> [] | Some (v # _) \<Rightarrow> v)"

definition Header_Add :: "Header \<Rightarrow> string \<Rightarrow> string \<Rightarrow> Header" where
  "Header_Add h k v = h(k \<mapsto> (case h k of None \<Rightarrow> [] | Some vs \<Rightarrow> vs) @ [v])"

text \<open>
  The body of a response is a stream: \<open>content\<close> is what reading it yields and
  \<open>read_error\<close> the error (if any) the read ends with instead of end-of-file.
\<close>

record Body =
  content :: string
  read_error :: "error option"

record http_Response =
  StatusCode :: int
  Header :: Header
  ResponseBody :: Body

text \<open>
  The envelope \<open>Response\<close> (lines 197-202). Its field \<open>Response *http.Response\<close> is
  named \<open>HTTP\<close> here, since \<open>Response\<close> also names the slot of the client. \<open>Data\<close>
  is the \<open>interface{}\<close> slot: \<open>None\<close> when nil, otherwise the caller's payload.
\<close>

record 'v Response =
  HTTP :: "http_Response option"
  Meta :: "ResponseMeta option"
  Data :: "'v option"
  Pagination :: "ResponsePagination option"

section \<open>encoding/json\<close>

text \<open>
  \<open>json.Unmarshal\<close> first checks that the whole input is one well-formed JSON value
  (surrounded by optional white space) and changes nothing when it is not; it then
  stores the value into its target. The model parses the input into a tree and stores
  from the tree. A number keeps its literal text, since its conversion depends on the
  target. String literals are unquoted as the decoder does: escapes are replaced,
  \<open>\uXXXX\<close> escapes (and surrogate pairs) become UTF-8, and bytes that are not
  well-formed UTF-8 become U+FFFD.
\<close>

datatype json =
    JNull
  | JBool bool
  | JNumber string
  | JString string
  | JArray "json list"
  | JObject "(string \<times> json) list"

definition is_space :: "char \<Rightarrow> bool" where
  "is_space c = (c = CHR '' '' \<or> c = CHR 0x09 \<or> c = CHR 0x0A \<or> c = CHR 0x0D)"

definition skip_space :: "string \<Rightarrow> string" where
  "skip_space s = dropWhile is_space s"

definition hex_val :: "char \<Rightarrow> nat option" where
  "hex_val c =
     (if is_digit c then Some (byte c - 48)
      else if 97 \<le> byte c \<and> byte c \<le> 102 then Some (byte c - 87)
      else if 65 \<le> byte c \<and> byte c \<le> 70 then Some (byte c - 55)
      else None)"

fun getu4 :: "string \<Rightarrow> nat option" where
  "getu4 (b # u # h1 # h2 # h3 # h4 # _) =
     (if b = CHR 0x5C \<and> u = CHR ''u'' then
        (case (hex_val h1, hex_val h2, hex_val h3, hex_val h4) of
           (Some x1, Some x2, Some x3, Some x4) \<Rightarrow> Some (((x1 * 16 + x2) * 16 + x3) * 16 + x4)
         | _ \<Rightarrow> None)
      else None)"
| "getu4 _ = None"

definition between :: "nat \<Rightarrow> nat \<Rightarrow> char \<Rightarrow> bool" where
  "between lo hi c = (lo \<le> byte c \<and> byte c \<le> hi)"

definition DecodeRune_size :: "string \<Rightarrow> nat" where
  "DecodeRune_size s =
     (case s of
        [] \<Rightarrow> 0
      | b0 # rest \<Rightarrow>
          if byte b0 < 0x80 then 1
          else if between 0xC2 0xDF b0 then
            (case rest of
               b1 # _ \<Rightarrow> if between 0x80 0xBF b1 then 2 else 0
             | _ \<Rightarrow> 0)
          else if between 0xE0 0xEF b0 then
            (case rest of
               b1 # b2 # _ \<Rightarrow>
                 if between (if byte b0 = 0xE0 then 0xA0 else 0x80)
                      (if byte b0 = 0xED then 0x9F else 0xBF) b1
                    \<and> between 0x80 0xBF b2
                 then 3 else 0
             | _ \<Rightarrow> 0)
          else if between 0xF0 0xF4 b0 then
            (case rest of
               b1 # b2 # b3 # _ \<Rightarrow>
                 if between (if byte b0 = 0xF0 then 0x90 else 0x80)
                      (if byte b0 = 0xF4 then 0x8F else 0xBF) b1
                    \<and> between 0x80 0xBF b2 \<and> between 0x80 0xBF b3
                 then 4 else 0
             | _ \<Rightarrow> 0)
          else 0)"

definition RuneError :: string where
  "RuneError = [CHR 0xEF, CHR 0xBF, CHR 0xBD]"

definition EncodeRune :: "nat \<Rightarrow> string" where
  "EncodeRune r =
     (if r < 0x80 then [char_of r]
      else if r < 0x800 then [char_of (0xC0 + r div 64), char_of (0x80 + r mod 64)]
      else if (0xD800 \<le> r \<and> r < 0xE000) \<or> 0x10FFFF < r then RuneError
      else if r < 0x10000 then
        [char_of (0xE0 + r div 4096), char_of (0x80 + r div 64 mod 64), char_of (0x80 + r mod 64)]
      else
        [char_of (0xF0 + r div 262144), char_of (0x80 + r div 4096 mod 64),
         char_of (0x80 + r div 64 mod 64), char_of (0x80 + r mod 64)])"

definition IsSurrogate :: "nat \<Rightarrow> bool" where
  "IsSurrogate r = (0xD800 \<le> r \<and> r < 0xE000)"

definition utf16_DecodeRune :: "nat \<Rightarrow> nat option \<Rightarrow> nat option" where
  "utf16_DecodeRune r1 r2 =
     (case r2 of
        None \<Rightarrow> None
      | Some r2 \<Rightarrow>
          if 0xD800 \<le> r1 \<and> r1 < 0xDC00 \<and> 0xDC00 \<le> r2 \<and> r2 < 0xE000
          then Some ((r1 - 0xD800) * 1024 + (r2 - 0xDC00) + 0x10000)
          else None)"

function unquote :: "string \<Rightarrow> string \<Rightarrow> (string \<times> string) option" where
  "unquote acc [] = None"
| "unquote acc (c # cs) =
     (if c = CHR 0x22 then Some (acc, cs)
      else if byte c < 0x20 then None
      else if c = CHR 0x5C then
        (case cs of
           [] \<Rightarrow> None
         | e # es \<Rightarrow>
             if e = CHR 0x22 \<or> e = CHR 0x5C \<or> e = CHR ''/'' then unquote (acc @ [e]) es
             else if e = CHR ''b'' then unquote (acc @ [CHR 0x08]) es
             else if e = CHR ''f'' then unquote (acc @ [CHR 0x0C]) es
             else if e = CHR ''n'' then unquote (acc @ [CHR 0x0A]) es
             else if e = CHR ''r'' then unquote (acc @ [CHR 0x0D]) es
             else if e = CHR ''t'' then unquote (acc @ [CHR 0x09]) es
             else if e = CHR ''u'' then
               (case getu4 (c # cs) of
                  None \<Rightarrow> None
                | Some rr \<Rightarrow>
                    if IsSurrogate rr then
                      (case utf16_DecodeRune rr (getu4 (drop 4 es)) of
                         Some dec \<Rightarrow> unquote (acc @ EncodeRune dec) (drop 10 es)
                       | None \<Rightarrow> unquote (acc @ RuneError) (drop 4 es))
                    else unquote (acc @ EncodeRune rr) (drop 4 es))
             else None)
      else if byte c < 0x80 then unquote (acc @ [c]) cs
      else
        (let n = DecodeRune_size (c # cs)
         in if n = 0 then unquote (acc @ RuneError) cs
            else unquote (acc @ take n (c # cs)) (drop n (c # cs))))"
  by pat_completeness auto
termination
  by (relation "measure (\<lambda>(acc, s). length s)") auto

text \<open>The number grammar of the scanner; the literal text is kept.\<close>

definition scan_int :: "string \<Rightarrow> (string \<times> string) option" where
  "scan_int s =
     (let (sign, s1) = (case s of
                          [] \<Rightarrow> ([], s)
                        | c # r \<Rightarrow> if c = CHR ''-'' then ([c], r) else ([], s))
      in case s1 of
           [] \<Rightarrow> None
         | d # r1 \<Rightarrow>
             if \<not> is_digit d then None
             else if d = CHR ''0'' then Some (sign @ [d], r1)
             else Some (sign @ d # takeWhile is_digit r1, dropWhile is_digit r1))"

definition scan_frac :: "string \<Rightarrow> (string \<times> string) option" where
  "scan_frac s =
     (case s of
        [] \<Rightarrow> Some ([], s)
      | c # r \<Rightarrow>
          if c = CHR ''.'' then
            (if takeWhile is_digit r = [] then None
             else Some (c # takeWhile is_digit r, dropWhile is_digit r))
          else Some ([], s))"

definition scan_exp :: "string \<Rightarrow> (string \<times> string) option" where
  "scan_exp s =
     (case s of
        [] \<Rightarrow> Some ([], s)
      | c # r \<Rightarrow>
          if c = CHR ''e'' \<or> c = CHR ''E'' then
            (let (sg, r1) = (case r of
                               [] \<Rightarrow> ([], r)
                             | c1 # r' \<Rightarrow>
                                 if c1 = CHR ''+'' \<or> c1 = CHR ''-'' then ([c1], r') else ([], r))
             in if takeWhile is_digit r1 = [] then None
                else Some (c # sg @ takeWhile is_digit r1, dropWhile is_digit r1))
          else Some ([], s))"

definition scan_number :: "string \<Rightarrow> (string \<times> string) option" where
  "scan_number s =
     (case scan_int s of
        None \<Rightarrow> None
      | Some (ip, s1) \<Rightarrow>
          (case scan_frac s1 of
             None \<Rightarrow> None
           | Some (fp, s2) \<Rightarrow>
               (case scan_exp s2 of
                  None \<Rightarrow> None
                | Some (ep, s3) \<Rightarrow> Some (ip @ fp @ ep, s3))))"

definition scan_literal :: "string \<Rightarrow> (json \<times> string) option" where
  "scan_literal s =
     (if take 4 s = ''true'' then Some (JBool True, drop 4 s)
      else if take 5 s = ''false'' then Some (JBool False, drop 5 s)
      else if take 4 s = ''null'' then Some (JNull, drop 4 s)
      else None)"

definition maxNestingDepth :: nat where
  "maxNestingDepth = 10000"

function parse_value :: "nat \<Rightarrow> string \<Rightarrow> (json \<times> string) option"
  and parse_elements :: "nat \<Rightarrow> json list \<Rightarrow> string \<Rightarrow> (json \<times> string) option"
  and parse_members :: "nat \<Rightarrow> (string \<times> json) list \<Rightarrow> string \<Rightarrow> (json \<times> string) option"
where
  "parse_value d s =
     (case skip_space s of
        [] \<Rightarrow> None
      | c # r \<Rightarrow>
          if c = CHR ''{'' then
            (if maxNestingDepth \<le> d then None
             else if take 1 (skip_space r) = ''}'' then Some (JObject [], drop 1 (skip_space r))
             else parse_members (Suc d) [] r)
          else if c = CHR ''['' then
            (if maxNestingDepth \<le> d then None
             else if take 1 (skip_space r) = '']'' then Some (JArray [], drop 1 (skip_space r))
             else parse_elements (Suc d) [] r)
          else if c = CHR 0x22 then
            (case unquote [] r of
               None \<Rightarrow> None
             | Some (str, r') \<Rightarrow> Some (JString str, r'))
          else if c = CHR ''-'' \<or> is_digit c then
            (case scan_number (c # r) of
               None \<Rightarrow> None
             | Some (num, r') \<Rightarrow> Some (JNumber num, r'))
          else scan_literal (c # r))"
| "parse_elements d acc s =
     (case parse_value d s of
        None \<Rightarrow> None
      | Some (v, r) \<Rightarrow>
          if length r < length s then
            (case skip_space r of
               [] \<Rightarrow> None
             | c # r' \<Rightarrow>
                 if c = CHR '','' then parse_elements d (acc @ [v]) r'
                 else if c = CHR '']'' then Some (JArray (acc @ [v]), r')
                 else None)
          else None)"
| "parse_members d acc s =
     (case skip_space s of
        [] \<Rightarrow> None
      | c # r \<Rightarrow>
          if c = CHR 0x22 then
            (case unquote [] r of
               None \<Rightarrow> None
             | Some (k, r1) \<Rightarrow>
                 (case skip_space r1 of
                    [] \<Rightarrow> None
                  | c1 # r2 \<Rightarrow>
                      if c1 = CHR '':'' then
                        (case parse_value d r2 of
                           None \<Rightarrow> None
                         | Some (v, r3) \<Rightarrow>
                             if length r3 < length r2 then
                               (case skip_space r3 of
                                  [] \<Rightarrow> None
                                | c3 # r4 \<Rightarrow>
                                    if c3 = CHR '','' then parse_members d (acc @ [(k, v)]) r4
                                    else if c3 = CHR ''}'' then Some (JObject (acc @ [(k, v)]), r4)
                                    else None)
                             else None)
                      else None))
          else None)"
  by pat_completeness auto
termination
proof -
  have sk: "length r < length s" if "skip_space s = c # r" for s c r
    using that length_dropWhile_le [of is_space s] by (simp add: skip_space_def)
  have uq: "length r < length s" if "unquote acc s = Some (x, r)" for acc s x r
    using that
  proof (induction "length s" arbitrary: acc s rule: less_induct)
    case less
    show ?case
    proof (cases s)
      case Nil
      with less.prems show ?thesis by simp
    next
      case (Cons c cs)
      have IH: "unquote acc' s' = Some (x, r) \<Longrightarrow> length s' \<le> length cs
                \<Longrightarrow> length r < Suc (length cs)" for acc' s'
        using less.hyps [of s' acc'] Cons by fastforce
      from less.prems show ?thesis
        unfolding Cons unquote.simps Let_def
        by (auto split: if_splits list.splits option.splits dest!: IH)
    qed
  qed
  show ?thesis
    by (relation "measure (\<lambda>x. case x of
          Inl (d, s) \<Rightarrow> 2 * length s
        | Inr (Inl (d, acc, s)) \<Rightarrow> 2 * length s + 1
        | Inr (Inr (d, acc, s)) \<Rightarrow> 2 * length s + 1)")
      (auto dest!: sk uq)
qed

declare parse_value.simps [simp del] parse_elements.simps [simp del] parse_members.simps [simp del]

definition parse_json :: "string \<Rightarrow> json option" where
  "parse_json s =
     (case parse_value 0 s of
        None \<Rightarrow> None
      | Some (v, r) \<Rightarrow> if skip_space r = [] then Some v else None)"

subsection \<open>Storing into the error struct\<close>

text \<open>
  A key of a JSON object selects the struct field whose JSON name it equals, or equals
  under case folding; the three names fold to distinct strings, so at most one field
  matches. Folding maps ASCII letters to upper case, U+017F (long s) to \<open>S\<close> and
  U+212A (Kelvin sign) to \<open>K\<close>.
\<close>

fun foldName :: "string \<Rightarrow> string" where
  "foldName [] = []"
| "foldName (c # cs) =
     (if is_lower c then char_of (byte c - 32) # foldName cs
      else if c = CHR 0xC5 \<and> take 1 cs = [CHR 0xBF] then CHR ''S'' # foldName (drop 1 cs)
      else if c = CHR 0xE2 \<and> take 2 cs = [CHR 0x84, CHR 0xAA] then CHR ''K'' # foldName (drop 2 cs)
      else c # foldName cs)"

text \<open>
  A JSON string is stored into a \<open>string\<close> field and a JSON number into an \<open>int\<close>
  field when \<open>strconv.ParseInt\<close> accepts its text; \<open>null\<close> and every value of another
  kind leave the field as it is (the latter is reported as an
  \<open>UnmarshalTypeError\<close>, and decoding goes on).
\<close>

definition store_string :: "json \<Rightarrow> string \<Rightarrow> string" where
  "store_string v old = (case v of JString s \<Rightarrow> s | _ \<Rightarrow> old)"

definition store_int :: "json \<Rightarrow> int \<Rightarrow> int" where
  "store_int v old =
     (case v of
        JNumber t \<Rightarrow> (case ParseInt t of (n, None) \<Rightarrow> n | (n, Some e) \<Rightarrow> old)
      | _ \<Rightarrow> old)"

definition store_field :: "InstagramError \<Rightarrow> string \<times> json \<Rightarrow> InstagramError" where
  "store_field e kv =
     (let name = foldName (fst kv)
      in if name = foldName ''error_type'' then e\<lparr>ErrorType := store_string (snd kv) (ErrorType e)\<rparr>
         else if name = foldName ''code'' then e\<lparr>Code := store_int (snd kv) (Code e)\<rparr>
         else if name = foldName ''error_message''
           then e\<lparr>ErrorMessage := store_string (snd kv) (ErrorMessage e)\<rparr>
         else e)"

definition store_InstagramError :: "json \<Rightarrow> InstagramError \<Rightarrow> InstagramError" where
  "store_InstagramError j e = (case j of JObject kvs \<Rightarrow> foldl store_field e kvs | _ \<Rightarrow> e)"

text \<open>
  The three uses of \<open>json.Unmarshal\<close> in \<open>CheckResponse\<close>, which drops the error
  result every time; each function returns the target after the call.
  \<^item> \<open>Unmarshal_struct\<close>: the target is a non-nil \<open>*InstagramError\<close>.
  \<^item> \<open>Unmarshal_ptr\<close>: the target is a \<open>**InstagramError\<close>; the JSON literal
    \<open>null\<close> sets the inner pointer to nil.
  \<^item> \<open>Unmarshal_map\<close>: the target is a \<open>*map[string]InstagramError\<close>; every
    member is decoded into a fresh zero struct and stored under its key as written.
\<close>

definition Unmarshal_struct :: "string \<Rightarrow> InstagramError \<Rightarrow> InstagramError" where
  "Unmarshal_struct data e =
     (case parse_json data of None \<Rightarrow> e | Some j \<Rightarrow> store_InstagramError j e)"

definition Unmarshal_ptr :: "string \<Rightarrow> InstagramError option \<Rightarrow> InstagramError option" where
  "Unmarshal_ptr data p =
     (case parse_json data of
        None \<Rightarrow> p
      | Some JNull \<Rightarrow> None
      | Some j \<Rightarrow>
          Some (store_InstagramError j (case p of None \<Rightarrow> zero_InstagramError | Some e \<Rightarrow> e)))"

definition Unmarshal_map ::
  "string \<Rightarrow> (string \<rightharpoonup> InstagramError) \<Rightarrow> (string \<rightharpoonup> InstagramError)" where
  "Unmarshal_map data m =
     (case parse_json data of
        Some (JObject kvs) \<Rightarrow>
          foldl (\<lambda>m kv. m(fst kv \<mapsto> store_InstagramError (snd kv) zero_InstagramError)) m kvs
      | Some JNull \<Rightarrow> Map.empty
      | _ \<Rightarrow> m)"

section \<open>crypto/sha256, crypto/hmac, encoding/hex\<close>

text \<open>SHA-256 (FIPS 180-4) over 32-bit words; the block size is 64 bytes.\<close>

type_synonym u32 = "32 word"

definition K256 :: "u32 list" where
  "K256 =
    [0x428A2F98, 0x71374491, 0xB5C0FBCF, 0xE9B5DBA5, 0x3956C25B, 0x59F111F1, 0x923F82A4, 0xAB1C5ED5,
     0xD807AA98, 0x12835B01, 0x243185BE, 0x550C7DC3, 0x72BE5D74, 0x80DEB1FE, 0x9BDC06A7, 0xC19BF174,
     0xE49B69C1, 0xEFBE4786, 0x0FC19DC6, 0x240CA1CC, 0x2DE92C6F, 0x4A7484AA, 0x5CB0A9DC, 0x76F988DA,
     0x983E5152, 0xA831C66D, 0xB00327C8, 0xBF597FC7, 0xC6E00BF3, 0xD5A79147, 0x06CA6351, 0x14292967,
     0x27B70A85, 0x2E1B2138, 0x4D2C6DFC, 0x53380D13, 0x650A7354, 0x766A0ABB, 0x81C2C92E, 0x92722C85,
     0xA2BFE8A1, 0xA81A664B, 0xC24B8B70, 0xC76C51A3, 0xD192E819, 0xD6990624, 0xF40E3585, 0x106AA070,
     0x19A4C116, 0x1E376C08, 0x2748774C, 0x34B0BCB5, 0x391C0CB3, 0x4ED8AA4A, 0x5B9CCA4F, 0x682E6FF3,
     0x748F82EE, 0x78A5636F, 0x84C87814, 0x8CC70208, 0x90BEFFFA, 0xA4506CEB, 0xBEF9A3F7, 0xC67178F2]"

definition init_hash :: "u32 list" where
  "init_hash =
    [0x6A09E667, 0xBB67AE85, 0x3C6EF372, 0xA54FF53A, 0x510E527F, 0x9B05688C, 0x1F83D9AB, 0x5BE0CD19]"

definition rotr :: "nat \<Rightarrow> u32 \<Rightarrow> u32" where
  "rotr n x = drop_bit n x OR push_bit (32 - n) x"

definition Ch :: "u32 \<Rightarrow> u32 \<Rightarrow> u32 \<Rightarrow> u32" where
  "Ch x y z = (x AND y) XOR (NOT x AND z)"

definition Maj :: "u32 \<Rightarrow> u32 \<Rightarrow> u32 \<Rightarrow> u32" where
  "Maj x y z = (x AND y) XOR (x AND z) XOR (y AND z)"

definition bsig0 :: "u32 \<Rightarrow> u32" where
  "bsig0 x = rotr 2 x XOR rotr 13 x XOR rotr 22 x"

definition bsig1 :: "u32 \<Rightarrow> u32" where
  "bsig1 x = rotr 6 x XOR rotr 11 x XOR rotr 25 x"

definition ssig0 :: "u32 \<Rightarrow> u32" where
  "ssig0 x = rotr 7 x XOR rotr 18 x XOR drop_bit 3 x"

definition ssig1 :: "u32 \<Rightarrow> u32" where
  "ssig1 x = rotr 17 x XOR rotr 19 x XOR drop_bit 10 x"

definition be64 :: "nat \<Rightarrow> string" where
  "be64 n = map (\<lambda>i. char_of (n div 256 ^ (7 - i))) [0..<8]"

definition be32 :: "u32 \<Rightarrow> string" where
  "be32 w = map (\<lambda>i. char_of (unat w div 256 ^ (3 - i))) [0..<4]"

definition sha_pad :: "string \<Rightarrow> string" where
  "sha_pad m =
     m @ [CHR 0x80] @ replicate ((119 - length m mod 64) mod 64) (CHR 0x00) @ be64 (8 * length m)"

fun words_of :: "string \<Rightarrow> u32 list" where
  "words_of (a # b # c # d # r) =
     of_nat (((byte a * 256 + byte b) * 256 + byte c) * 256 + byte d) # words_of r"
| "words_of _ = []"

fun schedule :: "nat \<Rightarrow> u32 list \<Rightarrow> u32 list" where
  "schedule 0 w = w"
| "schedule (Suc n) w =
     (let t = length w
      in schedule n
           (w @ [ssig1 (w ! (t - 2)) + w ! (t - 7) + ssig0 (w ! (t - 15)) + w ! (t - 16)]))"

fun sha_round :: "u32 list \<Rightarrow> u32 \<times> u32 \<Rightarrow> u32 list" where
  "sha_round [a, b, c, d, e, f, g, h] (k, w) =
     (let t1 = h + bsig1 e + Ch e f g + k + w;
          t2 = bsig0 a + Maj a b c
      in [t1 + t2, a, b, c, d + t1, e, f, g])"
| "sha_round s _ = s"

definition compress :: "u32 list \<Rightarrow> string \<Rightarrow> u32 list" where
  "compress hs block =
     map2 (+) hs (foldl sha_round hs (zip K256 (schedule 48 (words_of block))))"

fun chunks :: "string \<Rightarrow> string list" where
  "chunks s = (if s = [] then [] else take 64 s # chunks (drop 64 s))"

definition sha256 :: "string \<Rightarrow> string" where
  "sha256 m = concat (map be32 (foldl compress init_hash (chunks (sha_pad m))))"

definition hexdigit :: "nat \<Rightarrow> char" where
  "hexdigit n = ''0123456789abcdef'' ! n"

definition EncodeToString :: "string \<Rightarrow> string" where
  "EncodeToString bs = concat (map (\<lambda>c. [hexdigit (byte c div 16), hexdigit (byte c mod 16)]) bs)"

definition hmac :: "(string \<Rightarrow> string) \<Rightarrow> nat \<Rightarrow> string \<Rightarrow> string \<Rightarrow> string" where
  "hmac H blocksize key msg =
     (let key = (if blocksize < length key then H key else key);
          padded = key @ replicate (blocksize - length key) (CHR 0x00);
          ipad = map (\<lambda>c. char_of (byte c XOR 0x36)) padded;
          opad = map (\<lambda>c. char_of (byte c XOR 0x5c)) padded
      in H (opad @ H (ipad @ msg)))"


section \<open>net/url and requests\<close>

text \<open>
  \<open>url.Values\<close> is \<open>map[string][]string\<close>. \<open>Get\<close> returns the first value of the
  key, or the empty string when there is none; \<open>Set\<close> replaces the values of the key
  by the single value; \<open>Add\<close> appends.
\<close>

type_synonym Values = "string \<rightharpoonup> string list"

definition Values_Get :: "Values \<Rightarrow> string \<Rightarrow> string" where
  "Values_Get q k = (case q k of None \<Rightarrow> [] | Some [] \<Rightarrow> [] | Some (v # _) \<Rightarrow> v)"

definition Values_Set :: "Values \<Rightarrow> string \<Rightarrow> string \<Rightarrow> Values" where
  "Values_Set q k v = q(k \<mapsto> [v])"

definition Values_Add :: "Values \<Rightarrow> string \<Rightarrow> string \<Rightarrow> Values" where
  "Values_Add q k v = q(k \<mapsto> (case q k of None \<Rightarrow> [] | Some vs \<Rightarrow> vs) @ [v])"

record URL =
  Scheme :: string
  Opaque :: string
  Host :: string
  Path :: string
  RawQuery :: string
  Fragment :: string

record Request =
  Method :: string
  ReqURL :: URL
  ReqHeader :: Header
  ReqBody :: string

text \<open>
  The parsing, resolution and printing of URLs and the construction of a request
  belong to net/url and net/http; the client is modelled for any behaviour of them:
  \<^item> \<open>url_Parse\<close>: \<open>url.Parse\<close>;
  \<^item> \<open>ResolveReference u ref\<close>: \<open>u.ResolveReference(ref)\<close>;
  \<^item> \<open>Query\<close>: \<open>u.Query()\<close>, the parsed \<open>RawQuery\<close>;
  \<^item> \<open>Encode\<close>: \<open>q.Encode()\<close>;
  \<^item> \<open>URL_String\<close>: \<open>u.String()\<close>;
  \<^item> \<open>http_NewRequest\<close>: \<open>http.NewRequest\<close> on a method, a URL string and a
    body.
\<close>

record netlib =
  url_Parse :: "string \<Rightarrow> error + URL"
  ResolveReference :: "URL \<Rightarrow> URL \<Rightarrow> URL"
  Query :: "URL \<Rightarrow> Values"
  Encode :: "Values \<Rightarrow> string"
  URL_String :: "URL \<Rightarrow> string"
  http_NewRequest :: "string \<Rightarrow> string \<Rightarrow> string \<Rightarrow> error + Request"

section \<open>The client\<close>

text \<open>
  \<open>Client\<close> (lines 131-171). \<open>client\<close> is the \<open>http.Client\<close>, seen through its
  \<open>Do\<close>: a request yields an error or a response. \<open>BaseURL\<close> is the URL that
  \<open>NewClient\<close> parses; a nil \<open>BaseURL\<close> is not modelled. The service fields only
  point back to the client and are left out. \<open>Response\<close> is the slot of the most
  recent envelope; \<open>None\<close> is the nil pointer. The payload type \<open>'v\<close> is the type
  of the targets handed to \<open>Do\<close>.
\<close>

record 'v Client =
  client :: "Request \<Rightarrow> error + http_Response"
  BaseURL :: URL
  UserAgent :: string
  ClientID :: string
  ClientSecret :: string
  AccessToken :: string
  XInstaForwardedFor :: string
  Response :: "'v Response option"

text \<open>
  \<open>Parameters\<close> (lines 174-183), without its three \<open>float64\<close> fields, which the
  functions modelled here do not read.
\<close>

record Parameters =
  Count :: "64 word"
  MinID :: string
  MaxID :: string
  MinTimestamp :: int
  MaxTimestamp :: int

text \<open>\<open>ComputeXInstaForwardedFor\<close> (lines 301-310).\<close>

definition ComputeXInstaForwardedFor :: "'v Client \<Rightarrow> string" where
  "ComputeXInstaForwardedFor c =
     (if XInstaForwardedFor c = [] then []
      else XInstaForwardedFor c @ ''|''
           @ EncodeToString (hmac sha256 64 (ClientSecret c) (XInstaForwardedFor c)))"

text \<open>
  \<open>NewRequest\<close> (lines 316-350). \<open>NewRequest_query\<close> is the block of lines
  324-332: the three guarded calls of \<open>q.Set\<close>, in the order of the source.
\<close>

definition NewRequest_query :: "'v Client \<Rightarrow> Values \<Rightarrow> Values" where
  "NewRequest_query c q =
     (let q = (if AccessToken c \<noteq> [] \<and> Values_Get q ''access_token'' = []
               then Values_Set q ''access_token'' (AccessToken c) else q);
          q = (if ClientID c \<noteq> [] \<and> Values_Get q ''client_id'' = []
               then Values_Set q ''client_id'' (ClientID c) else q);
          q = (if ClientSecret c \<noteq> [] \<and> Values_Get q ''client_secret'' = []
               then Values_Set q ''client_secret'' (ClientSecret c) else q)
      in q)"

definition NewRequest :: "netlib \<Rightarrow> 'v Client \<Rightarrow> string \<Rightarrow> string \<Rightarrow> string \<Rightarrow> error + Request" where
  "NewRequest L c method urlStr body =
     (case url_Parse L urlStr of
        Inl err \<Rightarrow> Inl err
      | Inr rel \<Rightarrow>
          let u = ResolveReference L (BaseURL c) rel;
              q = Query L u;
              q = NewRequest_query c q;
              u = u\<lparr>RawQuery := Encode L q\<rparr>
          in case http_NewRequest L method (URL_String L u) body of
               Inl err \<Rightarrow> Inl err
             | Inr req \<Rightarrow>
                 let req = (if method = ''POST''
                            then req\<lparr>ReqHeader := Header_Add (ReqHeader req) ''Content-Type''
                                                   ''application/x-www-form-urlencoded''\<rparr>
                            else req);
                     req = (if XInstaForwardedFor c \<noteq> []
                            then req\<lparr>ReqHeader := Header_Add (ReqHeader req) ''X-Insta-Forwarded-For''
                                                   (ComputeXInstaForwardedFor c)\<rparr>
                            else req);
                     req = req\<lparr>ReqHeader := Header_Add (ReqHeader req) ''User-Agent'' (UserAgent c)\<rparr>
                 in Inr req)"

section \<open>The error classifier\<close>

text \<open>
  \<open>ioutil.ReadAll\<close> returns the bytes read and the error that ended the read, end of
  file counting as none. The slice it returns is allocated before the first read: it
  is never nil, also when the body is empty. A byte slice is modelled as
  \<open>string option\<close>, \<open>None\<close> being the nil slice.
\<close>

definition ReadAll :: "Body \<Rightarrow> string option \<times> error option" where
  "ReadAll b = (Some (content b), read_error b)"

definition bytes_of :: "string option \<Rightarrow> string" where
  "bytes_of data = (case data of None \<Rightarrow> [] | Some d \<Rightarrow> d)"

text \<open>\<open>CheckResponse\<close> (lines 414-474).\<close>

definition CheckResponse :: "http_Response \<Rightarrow> error option" where
  "CheckResponse r =
     (if StatusCode r = 200 then None
      else
        let (data, readErr) = ReadAll (ResponseBody r)
        in if readErr \<noteq> None then readErr
           else if StatusCode r = 403 then
             Some (InstagramErrorRef (Unmarshal_ptr (bytes_of data) (Some zero_InstagramError)))
           else if StatusCode r = 429 then
             Some (InstagramErrorRef (Unmarshal_ptr (bytes_of data) (Some zero_InstagramError)))
           else if StatusCode r = 500 then
             Some (InstagramErrorRef (Some
               \<lparr>ErrorType = ''Internal Server Error'', Code = 500,
                ErrorMessage = ''Oops, an error occurred.''\<rparr>))
           else
             (case data of
                Some d \<Rightarrow>
                  let err = Unmarshal_struct d zero_InstagramError
                  in if err \<noteq> zero_InstagramError then Some (InstagramErrorRef (Some err))
                     else
                       let temp = Unmarshal_map d Map.empty;
                           meta = (case temp ''meta'' of None \<Rightarrow> zero_InstagramError | Some e \<Rightarrow> e)
                       in Some (InstagramErrorRef (Some meta))
              | None \<Rightarrow> None))"

section \<open>The transport\<close>

text \<open>
  \<open>Do\<close> (lines 355-375). \<open>v\<close> is the \<open>interface{}\<close> target: \<open>None\<close> when nil,
  otherwise the current value of the variable it points to. \<open>Decode\<close> stands for
  \<open>json.NewDecoder(resp.Body).Decode(r)\<close>: from the body and the envelope \<open>r\<close>
  (whose \<open>Data\<close> is the target) it yields the envelope after decoding and the
  decoder's error. The result is the client after the call, the value of the target
  variable after the call, and the two values \<open>Do\<close> returns.
\<close>

type_synonym 'v decoder = "Body \<Rightarrow> 'v Response \<Rightarrow> 'v Response \<times> error option"

definition Do ::
  "'v decoder \<Rightarrow> 'v Client \<Rightarrow> Request \<Rightarrow> 'v option
     \<Rightarrow> 'v Client \<times> 'v option \<times> http_Response option \<times> error option" where
  "Do Decode c req v =
     (case client c req of
        Inl err \<Rightarrow> (c, v, None, Some err)
      | Inr resp \<Rightarrow>
          (case CheckResponse resp of
             Some err \<Rightarrow> (c, v, Some resp, Some err)
           | None \<Rightarrow>
               let r = \<lparr>HTTP = Some resp, Meta = None, Data = None, Pagination = None\<rparr>
               in case v of
                    None \<Rightarrow> (c, v, Some resp, None)
                  | Some x \<Rightarrow>
                      let r = r\<lparr>Data := v\<rparr>;
                          (r, err) = Decode (ResponseBody resp) r
                      in (c\<lparr>Response := Some r\<rparr>,
                          (case Data r of None \<Rightarrow> v | Some y \<Rightarrow> Some y),
                          Some resp, err)))"

section \<open>The rate-limit accessor\<close>

text \<open>
  \<open>GetRatelimit\<close> (lines 230-245). Go returns the pair \<open>(rl, err)\<close> on every path;
  dereferencing \<open>r.Response\<close> panics when that pointer is nil.
\<close>

definition GetRatelimit :: "'v Response \<Rightarrow> panic + (Ratelimit \<times> NumError option)" where
  "GetRatelimit r =
     (case HTTP r of
        None \<Rightarrow> Inl NilPointerDereference
      | Some resp \<Rightarrow>
          let rl = \<lparr>Limit = 0, Remaining = 0\<rparr>;
              (n, err) = Atoi (Header_Get (Header resp) ''X-Ratelimit-Limit'');
              rl = rl\<lparr>Limit := n\<rparr>
          in if err \<noteq> None then Inr (rl, err)
             else
               let (m, err) = Atoi (Header_Get (Header resp) ''X-Ratelimit-Remaining'');
                   rl = rl\<lparr>Remaining := m\<rparr>
               in Inr (rl, err))"

section \<open>Tag names\<close>

text \<open>
  \<open>validTagName\<close> (part_000, the tags service, lines 126-138) compiles the regular expression \<open>\W\<close>
  and rejects the name when it matches anywhere. In Go's regexp syntax \<open>\W\<close> is the
  complement of \<open>\w = [0-9A-Za-z_]\<close>, an ASCII class. The matcher reads the string
  rune by rune; a byte above 127 is part of a rune outside ASCII or decodes to U+FFFD,
  and both match \<open>\W\<close>, so the search succeeds exactly when some byte is not in
  \<open>[0-9A-Za-z_]\<close>. The pattern is a valid constant: \<open>regexp.Compile\<close> returns no
  error and the first return of the function is never taken.
\<close>

definition is_word_char :: "char \<Rightarrow> bool" where
  "is_word_char c = (is_digit c \<or> is_upper c \<or> is_lower c \<or> c = CHR ''_'')"

definition MatchString_NotWord :: "string \<Rightarrow> bool" where
  "MatchString_NotWord s = list_ex (\<lambda>c. \<not> is_word_char c) s"

definition validTagName :: "string \<Rightarrow> bool \<times> error option" where
  "validTagName tagName =
     (if MatchString_NotWord tagName then (False, None) else (True, None))"

text \<open>The reading of ``alphanumeric'' in the specification: a letter or a digit.\<close>

definition is_alphanumeric :: "char \<Rightarrow> bool" where
  "is_alphanumeric c = (is_digit c \<or> is_upper c \<or> is_lower c)"

section \<open>Recent media of a tag\<close>

text \<open>
  Decimal printing: \<open>strconv.FormatUint(n, 10)\<close> and the verb \<open>%d\<close> of
  \<open>fmt.Sprintf\<close>. Then the method \<open>Error\<close> of \<open>InstagramError\<close> (lines 381-383) and the
  messages of the other errors. The method reads the fields of its receiver: on a nil
  pointer it panics.
\<close>

fun nat_digits :: "nat \<Rightarrow> string" where
  "nat_digits n =
     (if n < 10 then [char_of (48 + n)] else nat_digits (n div 10) @ [char_of (48 + n mod 10)])"

definition FormatUint :: "64 word \<Rightarrow> string" where
  "FormatUint n = nat_digits (unat n)"

definition Itoa :: "int \<Rightarrow> string" where
  "Itoa i = (if i < 0 then CHR ''-'' # nat_digits (nat (- i)) else nat_digits (nat i))"

definition Error :: "error \<Rightarrow> panic + string" where
  "Error err =
     (case err of
        LibraryError msg \<Rightarrow> Inr msg
      | ErrorString msg \<Rightarrow> Inr msg
      | InstagramErrorRef None \<Rightarrow> Inl NilPointerDereference
      | InstagramErrorRef (Some e) \<Rightarrow>
          Inr (ErrorType e @ '' ('' @ Itoa (Code e) @ ''): '' @ ErrorMessage e))"

text \<open>
  \<open>TagsService.RecentMedia\<close> (part_000, lines 48-98). A \<open>[]Media\<close> is a list, or
  \<open>None\<close> for the nil slice; the element type is not fixed here. The result is the
  client after the call and the three values returned. \<open>http.NewRequest\<close> always
  sets the URL of the request it returns, so the branch for a nil URL is not taken.
\<close>

definition RecentMedia ::
  "netlib \<Rightarrow> 'm list option decoder \<Rightarrow> 'm list option Client \<Rightarrow> string \<Rightarrow> Parameters option
     \<Rightarrow> panic + ('m list option Client \<times> 'm list option \<times> ResponsePagination option \<times> error option)"
  where
  "RecentMedia L Decode c tagName opt =
     (case validTagName tagName of
        (valid, Some err) \<Rightarrow> Inr (c, None, None, Some err)
      | (valid, None) \<Rightarrow>
          if \<not> valid then Inr (c, Some [], Some \<lparr>NextURL = [], NextMaxID = []\<rparr>, None)
          else
            let u = ''tags/'' @ tagName @ ''/media/recent'';
                u = (case opt of
                       None \<Rightarrow> u
                     | Some p \<Rightarrow>
                         let params = Map.empty;
                             params = (if Count p \<noteq> 0
                                       then Values_Add params ''count'' (FormatUint (Count p))
                                       else params);
                             params = (if MinID p \<noteq> [] then Values_Add params ''min_id'' (MinID p)
                                       else params);
                             params = (if MaxID p \<noteq> [] then Values_Add params ''max_id'' (MaxID p)
                                       else params)
                         in u @ ''?'' @ Encode L params)
            in case NewRequest L c ''GET'' u [] of
                 Inl err \<Rightarrow> Inr (c, None, None, Some err)
               | Inr req \<Rightarrow>
                   (case Do Decode c req (Some None) of
                      (c', media, resp, Some err) \<Rightarrow>
                        (case Error err of
                           Inl p \<Rightarrow> Inl p
                         | Inr msg \<Rightarrow>
                             Inr (c', None, None,
                                  Some (ErrorString (''go-instagram Tag.RecentMedia error:'' @ msg
                                                     @ '' on URL '' @ URL_String L (ReqURL req)))))
                    | (c', media, resp, None) \<Rightarrow>
                        (case Response c' of
                           None \<Rightarrow> Inl NilPointerDereference
                         | Some r \<Rightarrow>
                             let page = (case Pagination r of
                                           None \<Rightarrow> \<lparr>NextURL = [], NextMaxID = []\<rparr>
                                         | Some p \<Rightarrow> p)
                             in Inr (c', (case media of None \<Rightarrow> None | Some m \<Rightarrow> m),
                                     Some page, None))))"

section \<open>Example values\<close>

text \<open>
  Concrete values at which the properties below are instantiated: the base URL of
  \<open>NewClient\<close>, a configured client over a given transport, a request, a response
  with a given status and body, and the two shapes of an error body.
\<close>

abbreviation api_base :: URL where
  "api_base \<equiv>
     \<lparr>Scheme = ''https'', Opaque = [], Host = ''api.instagram.com'', Path = ''/v1/'',
      RawQuery = [], Fragment = []\<rparr>"

abbreviation example_client :: "(Request \<Rightarrow> error + http_Response) \<Rightarrow> unit Client" where
  "example_client transport \<equiv>
     \<lparr>client = transport, BaseURL = api_base, UserAgent = ''go-instagram'', ClientID = ''id'',
      ClientSecret = ''secret'', AccessToken = ''token'', XInstaForwardedFor = ''1.2.3.4'',
      Response = None\<rparr>"

abbreviation example_request :: Request where
  "example_request \<equiv>
     \<lparr>Method = ''GET'', ReqURL = api_base\<lparr>Path := ''/v1/tags/nature''\<rparr>,
      ReqHeader = Map.empty, ReqBody = []\<rparr>"

abbreviation reply :: "int \<Rightarrow> string \<Rightarrow> http_Response" where
  "reply code body \<equiv>
     \<lparr>StatusCode = code, Header = Map.empty,
      ResponseBody = \<lparr>content = body, read_error = None\<rparr>\<rparr>"

abbreviation broken_reply :: "int \<Rightarrow> string \<Rightarrow> http_Response" where
  "broken_reply code body \<equiv>
     \<lparr>StatusCode = code, Header = Map.empty,
      ResponseBody = \<lparr>content = body, read_error = Some (LibraryError ''unexpected EOF'')\<rparr>\<rparr>"

abbreviation oauth_error :: InstagramError where
  "oauth_error \<equiv> \<lparr>ErrorType = ''OAuthException'', Code = 400, ErrorMessage = ''bad''\<rparr>"

abbreviation bare_body :: string where
  "bare_body \<equiv> ''{\"error_type\":\"OAuthException\",\"code\":400,\"error_message\":\"bad\"}''"

abbreviation meta_body :: string where
  "meta_body \<equiv>
     ''{\"meta\":{\"error_type\":\"OAuthException\",\"code\":400,\"error_message\":\"bad\"}}''"

text \<open>
  A stand-in for net/url and net/http. The properties of the request builder hold for
  every library; this one only serves to instantiate them. It keeps the relative URL as
  the path, appends it to the base path, reads no query parameters from the URL and
  encodes a query as its \<open>access_token\<close>.
\<close>

abbreviation stub_lib :: netlib where
  "stub_lib \<equiv>
     \<lparr>url_Parse = (\<lambda>s. Inr \<lparr>Scheme = [], Opaque = [], Host = [], Path = s, RawQuery = [],
                            Fragment = []\<rparr>),
      ResolveReference = (\<lambda>b r. b\<lparr>Path := Path b @ Path r\<rparr>),
      Query = (\<lambda>u. Map.empty),
      Encode = (\<lambda>q. ''access_token='' @ Values_Get q ''access_token''),
      URL_String = (\<lambda>u. Scheme u @ ''://'' @ Host u @ Path u @ ''?'' @ RawQuery u),
      http_NewRequest = (\<lambda>m u b. Inr \<lparr>Method = m, ReqURL = api_base, ReqHeader = Map.empty,
                                       ReqBody = b\<rparr>)\<rparr>"

section \<open>Properties of the JSON parser\<close>

text \<open>
  Every parser consumes input: the tests on lengths that guard the recursive calls of
  \<open>parse_elements\<close> and \<open>parse_members\<close> always succeed.
\<close>

lemma skip_space_length: "length (skip_space s) \<le> length s"
  by (simp add: skip_space_def length_dropWhile_le)

lemma skip_space_Cons: "skip_space s = c # r \<Longrightarrow> length r < length s"
  using skip_space_length [of s] by simp

lemma unquote_length: "unquote acc s = Some (x, r) \<Longrightarrow> length r < length s"
proof (induction "length s" arbitrary: acc s rule: less_induct)
  case less
  show ?case
  proof (cases s)
    case Nil
    with less.prems show ?thesis by simp
  next
    case (Cons c cs)
    have IH: "unquote acc' s' = Some (x, r) \<Longrightarrow> length s' \<le> length cs \<Longrightarrow> length r < Suc (length cs)"
      for acc' s'
      using less.hyps [of s' acc'] Cons by fastforce
    from less.prems show ?thesis
      unfolding Cons unquote.simps Let_def
      by (auto split: if_splits list.splits option.splits dest!: IH)
  qed
qed

lemma scan_int_length: "scan_int s = Some (x, r) \<Longrightarrow> length r < length s"
  unfolding scan_int_def Let_def
  by (auto split: if_splits list.splits intro: le_less_trans [OF length_dropWhile_le])

lemma scan_frac_length: "scan_frac s = Some (x, r) \<Longrightarrow> length r \<le> length s"
  unfolding scan_frac_def
  by (auto split: if_splits list.splits intro: le_SucI length_dropWhile_le)

lemma scan_exp_length: "scan_exp s = Some (x, r) \<Longrightarrow> length r \<le> length s"
  unfolding scan_exp_def Let_def
  by (auto split: if_splits list.splits intro: le_SucI length_dropWhile_le)

lemma scan_number_length: "scan_number s = Some (x, r) \<Longrightarrow> length r < length s"
  unfolding scan_number_def
  by (fastforce split: option.splits dest: scan_int_length scan_frac_length scan_exp_length)

lemma scan_literal_length:
  "s \<noteq> [] \<Longrightarrow> scan_literal s = Some (x, r) \<Longrightarrow> length r < length s"
  by (auto simp: scan_literal_def split: if_splits)

lemma skip_space_drop1: "skip_space r \<noteq> [] \<Longrightarrow> length (drop 1 (skip_space r)) < length r"
  using skip_space_length [of r] by (cases "skip_space r") auto

lemma parse_consumes:
  "parse_value d s = Some (v, r) \<Longrightarrow> length r < length s"
  "parse_elements d acc s = Some (v, r) \<Longrightarrow> length r < length s"
  "parse_members d acc' s = Some (v, r) \<Longrightarrow> length r < length s"
proof (induction d s and d acc s and d acc' s arbitrary: v r and v r and v r
    rule: parse_value_parse_elements_parse_members.induct)
  case (1 d s)
  note prems = "1.prems" [unfolded parse_value.simps [of d s]]
  show ?case
  proof (cases "skip_space s")
    case Nil
    with prems show ?thesis by simp
  next
    case (Cons c t)
    have t: "length t < length s"
      using Cons by (rule skip_space_Cons)
    have cs: "length (c # t) \<le> length s"
      using t by simp
    consider (obj) "c = CHR ''{''" | (arr) "c \<noteq> CHR ''{''" "c = CHR ''[''"
      | (str) "c \<noteq> CHR ''{''" "c \<noteq> CHR ''[''" "c = CHR 0x22"
      | (num) "c \<noteq> CHR ''{''" "c \<noteq> CHR ''[''" "c \<noteq> CHR 0x22" "c = CHR ''-'' \<or> is_digit c"
      | (lit) "c \<noteq> CHR ''{''" "c \<noteq> CHR ''[''" "c \<noteq> CHR 0x22" "\<not> (c = CHR ''-'' \<or> is_digit c)"
      by blast
    then show ?thesis
    proof cases
      case obj
      show ?thesis
      proof (cases "take 1 (skip_space t) = ''}''")
        case True
        then have "length (drop 1 (skip_space t)) < length t"
          by (intro skip_space_drop1) auto
        with prems Cons obj True t show ?thesis
          by (auto split: if_splits)
      next
        case False
        with prems Cons obj have nd: "\<not> maxNestingDepth \<le> d"
          and pm: "parse_members (Suc d) [] t = Some (v, r)"
          by (auto split: if_splits)
        from "1.IH"(1) [OF Cons obj nd False pm] t show ?thesis by simp
      qed
    next
      case arr
      show ?thesis
      proof (cases "take 1 (skip_space t) = '']''")
        case True
        then have "length (drop 1 (skip_space t)) < length t"
          by (intro skip_space_drop1) auto
        with prems Cons arr True t show ?thesis
          by (auto split: if_splits)
      next
        case False
        with prems Cons arr have nd: "\<not> maxNestingDepth \<le> d"
          and pe: "parse_elements (Suc d) [] t = Some (v, r)"
          by (auto split: if_splits)
        from "1.IH"(2) [OF Cons arr(1) arr(2) nd False pe] t show ?thesis by simp
      qed
    next
      case str
      with prems Cons t show ?thesis
        by (auto split: option.splits dest!: unquote_length)
    next
      case num
      with prems Cons cs show ?thesis
        by (auto split: option.splits dest!: scan_number_length)
    next
      case lit
      with prems Cons have "scan_literal (c # t) = Some (v, r)"
        by auto
      then have "length r < length (c # t)"
        by (intro scan_literal_length) auto
      with cs show ?thesis by simp
    qed
  qed
next
  case (2 d acc s)
  from "2.prems" [unfolded parse_elements.simps [of d acc s]]
  obtain v' r' where pv: "parse_value d s = Some (v', r')" and lt: "length r' < length s"
    and rest: "(case skip_space r' of
               [] \<Rightarrow> None
             | c # r'' \<Rightarrow>
                 if c = CHR '','' then parse_elements d (acc @ [v']) r''
                 else if c = CHR '']'' then Some (JArray (acc @ [v']), r'')
                 else None) = Some (v, r)"
    by (auto split: option.splits if_splits)
  show ?case
  proof (cases "skip_space r'")
    case Nil
    with rest show ?thesis by simp
  next
    case (Cons c r'')
    have r'': "length r'' < length r'"
      using Cons by (rule skip_space_Cons)
    show ?thesis
    proof (cases "c = CHR '',''")
      case True
      with rest Cons have "parse_elements d (acc @ [v']) r'' = Some (v, r)"
        by simp
      from "2.IH"(2) [OF pv refl lt Cons True this] r'' lt show ?thesis
        by simp
    next
      case False
      with rest Cons r'' lt show ?thesis
        by (auto split: if_splits)
    qed
  qed
next
  case (3 d acc s)
  from "3.prems" [unfolded parse_members.simps [of d acc s]]
  obtain r0 k r1 r2 v' r3 c3 r4
    where f1: "skip_space s = CHR 0x22 # r0"
      and f2: "unquote [] r0 = Some (k, r1)"
      and f3: "skip_space r1 = CHR '':'' # r2"
      and f4: "parse_value d r2 = Some (v', r3)"
      and f5: "length r3 < length r2"
      and f6: "skip_space r3 = c3 # r4"
      and rest: "(if c3 = CHR '','' then parse_members d (acc @ [(k, v')]) r4
                  else if c3 = CHR ''}'' then Some (JObject (acc @ [(k, v')]), r4)
                  else None) = Some (v, r)"
    by (auto split: option.splits if_splits list.splits)
  have l0: "length r0 < length s"
    using f1 by (rule skip_space_Cons)
  have l1: "length r1 < length r0"
    using f2 by (rule unquote_length)
  have l2: "length r2 < length r1"
    using f3 by (rule skip_space_Cons)
  have l4: "length r4 < length r3"
    using f6 by (rule skip_space_Cons)
  show ?case
  proof (cases "c3 = CHR '',''")
    case True
    with rest have pm: "parse_members d (acc @ [(k, v')]) r4 = Some (v, r)"
      by simp
    have "length r < length r4"
      by (rule "3.IH"(2) [OF f1 refl f2 refl f3 refl f4 refl f5 f6 True pm])
    with l0 l1 l2 f5 l4 show ?thesis by simp
  next
    case False
    with rest l0 l1 l2 f5 l4 show ?thesis
      by (auto split: if_splits)
  qed
qed

lemma parse_elements_unguarded:
  "parse_elements d acc s =
     (case parse_value d s of
        None \<Rightarrow> None
      | Some (v, r) \<Rightarrow>
          (case skip_space r of
             [] \<Rightarrow> None
           | c # r' \<Rightarrow>
               if c = CHR '','' then parse_elements d (acc @ [v]) r'
               else if c = CHR '']'' then Some (JArray (acc @ [v]), r')
               else None))"
  by (subst parse_elements.simps) (auto split: option.splits dest: parse_consumes(1))

lemma parse_members_unguarded:
  "parse_members d acc s =
     (case skip_space s of
        [] \<Rightarrow> None
      | c # r \<Rightarrow>
          if c = CHR 0x22 then
            (case unquote [] r of
               None \<Rightarrow> None
             | Some (k, r1) \<Rightarrow>
                 (case skip_space r1 of
                    [] \<Rightarrow> None
                  | c1 # r2 \<Rightarrow>
                      if c1 = CHR '':'' then
                        (case parse_value d r2 of
                           None \<Rightarrow> None
                         | Some (v, r3) \<Rightarrow>
                             (case skip_space r3 of
                                [] \<Rightarrow> None
                              | c3 # r4 \<Rightarrow>
                                  if c3 = CHR '','' then parse_members d (acc @ [(k, v)]) r4
                                  else if c3 = CHR ''}'' then Some (JObject (acc @ [(k, v)]), r4)
                                  else None))
                      else None))
          else None)"
  by (subst parse_members.simps)
    (auto split: option.splits list.splits dest: parse_consumes(1))

lemma char_of_eq_byte: "char_of (n::nat) = c \<longleftrightarrow> n mod 256 = byte c"
  unfolding byte_def by (metis char_of_char of_char_of)

lemma eq_char_of_byte: "c = char_of (n::nat) \<longleftrightarrow> byte c = n mod 256"
  unfolding byte_def by (metis char_of_char of_char_of)

lemmas json_eval = parse_json_def parse_value.simps parse_elements.simps parse_members.simps
  skip_space_def is_space_def scan_number_def scan_int_def scan_frac_def scan_exp_def is_digit_def
  is_lower_def byte_def maxNestingDepth_def scan_literal_def

lemmas store_eval = store_InstagramError_def store_field_def store_string_def store_int_def
  ParseInt_def parse_digits_def digit_val_def zero_InstagramError_def Let_def

lemma parse_json_Nil: "parse_json [] = None"
  by (simp add: parse_json_def parse_value.simps skip_space_def)

lemma parse_json_bare_body:
  "parse_json bare_body =
     Some (JObject [(''error_type'', JString ''OAuthException''), (''code'', JNumber ''400''),
                    (''error_message'', JString ''bad'')])"
  by (simp add: json_eval)

lemma Unmarshal_struct_bare: "Unmarshal_struct bare_body zero_InstagramError = oauth_error"
  by (simp add: Unmarshal_struct_def json_eval store_eval)

lemma Unmarshal_struct_meta: "Unmarshal_struct meta_body zero_InstagramError = zero_InstagramError"
  by (simp add: Unmarshal_struct_def json_eval store_eval)

lemma Unmarshal_map_meta: "Unmarshal_map meta_body Map.empty ''meta'' = Some oauth_error"
  by (simp add: Unmarshal_map_def json_eval store_eval)

lemma oauth_error_not_zero: "oauth_error \<noteq> zero_InstagramError"
  by (simp add: zero_InstagramError_def)

text \<open>Field names match under case folding; keys of a map do not.\<close>

lemma Unmarshal_struct_folded_names:
  "Unmarshal_struct ''{\"Error_Type\":\"a\",\"CODE\":7,\"error_message\":null}'' zero_InstagramError
   = \<lparr>ErrorType = ''a'', Code = 7, ErrorMessage = []\<rparr>"
  by (simp add: Unmarshal_struct_def json_eval store_eval char_of_eq_byte eq_char_of_byte)

lemma Unmarshal_ptr_null: "Unmarshal_ptr ''null'' (Some zero_InstagramError) = None"
  by (simp add: Unmarshal_ptr_def json_eval)

section \<open>Properties of the error classifier\<close>

lemma CheckResponse_None_iff: "CheckResponse r = None \<longleftrightarrow> StatusCode r = 200"
  by (auto simp: CheckResponse_def ReadAll_def Let_def)

lemma CheckResponse_read_error:
  "StatusCode r \<noteq> 200 \<Longrightarrow> read_error (ResponseBody r) = Some e \<Longrightarrow> CheckResponse r = Some e"
  by (simp add: CheckResponse_def ReadAll_def)

text \<open>
  Claim C1: \<open>CheckResponse\<close> returns no error exactly for status 200. For every other
  status \<open>Do\<close> returns the response together with the error of \<open>CheckResponse\<close> and
  leaves the client and the target as they were, whatever the decoder and the target
  are: the payload is not decoded.
\<close>

theorem CheckResponse_success_only_200:
  "(CheckResponse resp = None \<longleftrightarrow> StatusCode resp = 200)
   \<and> (client c req = Inr resp \<and> StatusCode resp \<noteq> 200
        \<longrightarrow> (\<exists>e. CheckResponse resp = Some e
                 \<and> (\<forall>Decode v. Do Decode c req v = (c, v, Some resp, Some e))))"
proof (intro conjI impI)
  show "CheckResponse resp = None \<longleftrightarrow> StatusCode resp = 200"
    by (rule CheckResponse_None_iff)
next
  assume a: "client c req = Inr resp \<and> StatusCode resp \<noteq> 200"
  then have "CheckResponse resp \<noteq> None"
    by (simp add: CheckResponse_None_iff)
  then obtain e where e: "CheckResponse resp = Some e"
    by blast
  have "Do Decode c req v = (c, v, Some resp, Some e)" for Decode v
    using a e by (simp add: Do_def)
  with e show "\<exists>e. CheckResponse resp = Some e
                 \<and> (\<forall>Decode v. Do Decode c req v = (c, v, Some resp, Some e))"
    by blast
qed

text \<open>
  A redirect is classified as an error, and \<open>Do\<close> on a client whose transport answers
  with it returns an error.
\<close>

theorem CheckResponse_success_only_200_witness:
  "CheckResponse (reply 302 []) \<noteq> None
   \<and> (\<exists>e. CheckResponse (reply 302 []) = Some e
          \<and> (\<forall>Decode v. Do Decode (example_client (\<lambda>req. Inr (reply 302 []))) example_request v
                = (example_client (\<lambda>req. Inr (reply 302 [])), v, Some (reply 302 []), Some e)))"
  using CheckResponse_success_only_200
    [of "reply 302 []" "example_client (\<lambda>req. Inr (reply 302 []))" example_request]
  by simp

text \<open>
  Claim C2, as stated, fails: when reading the body ends with an error, the classifier
  returns that error and decodes nothing, although the body is not empty.
\<close>

theorem CheckResponse_read_error_counterexample:
  "content (ResponseBody (broken_reply 400 bare_body)) \<noteq> []
   \<and> CheckResponse (broken_reply 400 bare_body) = Some (LibraryError ''unexpected EOF'')
   \<and> CheckResponse (broken_reply 400 bare_body)
       \<noteq> Some (InstagramErrorRef (Some (Unmarshal_struct bare_body zero_InstagramError)))"
  by (simp add: CheckResponse_def ReadAll_def)

text \<open>
  Claim C2, amended: for a response whose status is none of 200, 403, 429 and 500 and
  whose body is read without error and is not empty, the classifier decodes the body as
  a bare error object and returns the result unless all its fields are zero; in that
  case it decodes the body as a map of error objects and returns the value under
  \<open>meta\<close> (the zero error when there is none). The bare body and the body nested
  under \<open>meta\<close> of the specification give the same error.
\<close>

theorem CheckResponse_two_shapes:
  assumes "StatusCode r \<noteq> 200" "StatusCode r \<noteq> 403" "StatusCode r \<noteq> 429" "StatusCode r \<noteq> 500"
    and "ResponseBody r = \<lparr>content = d, read_error = None\<rparr>" and "d \<noteq> []"
  shows "CheckResponse r =
           Some (InstagramErrorRef (Some
             (if Unmarshal_struct d zero_InstagramError \<noteq> zero_InstagramError
              then Unmarshal_struct d zero_InstagramError
              else (case Unmarshal_map d Map.empty ''meta'' of
                      None \<Rightarrow> zero_InstagramError
                    | Some e \<Rightarrow> e))))
         \<and> (d = bare_body \<or> d = meta_body \<longrightarrow>
              CheckResponse r = Some (InstagramErrorRef (Some oauth_error)))"
proof -
  have gen: "CheckResponse r =
           Some (InstagramErrorRef (Some
             (if Unmarshal_struct d zero_InstagramError \<noteq> zero_InstagramError
              then Unmarshal_struct d zero_InstagramError
              else (case Unmarshal_map d Map.empty ''meta'' of
                      None \<Rightarrow> zero_InstagramError
                    | Some e \<Rightarrow> e))))"
    using assms by (simp add: CheckResponse_def ReadAll_def Let_def)
  have "CheckResponse r = Some (InstagramErrorRef (Some oauth_error))"
    if "d = bare_body \<or> d = meta_body"
    using that
  proof
    assume "d = bare_body"
    then show ?thesis
      unfolding gen by (simp add: Unmarshal_struct_bare oauth_error_not_zero)
  next
    assume "d = meta_body"
    then show ?thesis
      unfolding gen by (simp add: Unmarshal_struct_meta Unmarshal_map_meta)
  qed
  with gen show ?thesis by blast
qed

theorem CheckResponse_two_shapes_witness:
  "CheckResponse (reply 400 bare_body) = Some (InstagramErrorRef (Some oauth_error))
   \<and> CheckResponse (reply 400 meta_body) = Some (InstagramErrorRef (Some oauth_error))"
  using CheckResponse_two_shapes [of "reply 400 bare_body" bare_body, THEN conjunct2]
    CheckResponse_two_shapes [of "reply 400 meta_body" meta_body, THEN conjunct2]
  by simp

text \<open>
  Claim C4, as stated, fails: the body is read before the status is looked at, and a
  read that ends with an error makes the classifier return that error, also for status
  500.
\<close>

theorem CheckResponse_500_read_error_counterexample:
  "CheckResponse (broken_reply 500 ''Oops, an error occurred.'')
   = Some (LibraryError ''unexpected EOF'')
   \<and> CheckResponse (broken_reply 500 ''Oops, an error occurred.'')
       \<noteq> Some (InstagramErrorRef (Some
            \<lparr>ErrorType = ''Internal Server Error'', Code = 500,
             ErrorMessage = ''Oops, an error occurred.''\<rparr>))"
  by (simp add: CheckResponse_def ReadAll_def)

text \<open>
  Claim C4, amended: for status 500 the classifier returns the fixed error whatever the
  content of the body is, provided the body is read without error; otherwise it returns
  the read error. The body is not parsed: the result does not depend on its content.
\<close>

theorem CheckResponse_500:
  "StatusCode r = 500 \<Longrightarrow>
   CheckResponse r =
     (case read_error (ResponseBody r) of
        Some e \<Rightarrow> Some e
      | None \<Rightarrow>
          Some (InstagramErrorRef (Some
            \<lparr>ErrorType = ''Internal Server Error'', Code = 500,
             ErrorMessage = ''Oops, an error occurred.''\<rparr>)))"
proof (cases "read_error (ResponseBody r)")
  case None
  assume "StatusCode r = 500"
  with None show ?thesis
    by (simp add: CheckResponse_def ReadAll_def)
next
  case (Some e)
  assume "StatusCode r = 500"
  then have "StatusCode r \<noteq> 200"
    by simp
  then have "CheckResponse r = Some e"
    using Some by (rule CheckResponse_read_error)
  with Some show ?thesis
    by simp
qed

theorem CheckResponse_500_witness:
  "CheckResponse (reply 500 ''<html>not JSON</html>'')
   = Some (InstagramErrorRef (Some
       \<lparr>ErrorType = ''Internal Server Error'', Code = 500,
        ErrorMessage = ''Oops, an error occurred.''\<rparr>))"
  using CheckResponse_500 [of "reply 500 ''<html>not JSON</html>''"]
  by simp

text \<open>
  The special cases return before the test on the body: for an empty body read without
  error, status 500 yields the fixed error and status 403 or 429 the error whose fields
  are all zero.
\<close>

lemma CheckResponse_special_empty_body:
  assumes "ResponseBody r = \<lparr>content = [], read_error = None\<rparr>"
  shows "(StatusCode r = 500 \<longrightarrow>
            CheckResponse r = Some (InstagramErrorRef (Some
              \<lparr>ErrorType = ''Internal Server Error'', Code = 500,
               ErrorMessage = ''Oops, an error occurred.''\<rparr>)))
       \<and> (StatusCode r = 403 \<or> StatusCode r = 429 \<longrightarrow>
            CheckResponse r = Some (InstagramErrorRef (Some zero_InstagramError)))"
  using assms
  by (simp add: CheckResponse_def ReadAll_def bytes_of_def Unmarshal_ptr_def parse_json_Nil)



section \<open>Properties of the transport\<close>

text \<open>
  Claim C10: the client after \<open>Do\<close> is the client before it, except that the slot
  \<open>Response\<close> holds the decoded envelope when the transport answered, the status is
  200 and the target is not nil. So the slot changes only in that case.
\<close>

theorem Do_Response_slot:
  "fst (Do Decode c req v) =
     (case (client c req, v) of
        (Inr resp, Some x) \<Rightarrow>
          if StatusCode resp = 200
          then c\<lparr>Response := Some (fst (Decode (ResponseBody resp)
                   \<lparr>HTTP = Some resp, Meta = None, Data = Some x, Pagination = None\<rparr>))\<rparr>
          else c
      | _ \<Rightarrow> c)
   \<and> (Response (fst (Do Decode c req v)) \<noteq> Response c
        \<longrightarrow> (\<exists>resp x. client c req = Inr resp \<and> StatusCode resp = 200 \<and> v = Some x))"
proof -
  have eq: "fst (Do Decode c req v) =
     (case (client c req, v) of
        (Inr resp, Some x) \<Rightarrow>
          if StatusCode resp = 200
          then c\<lparr>Response := Some (fst (Decode (ResponseBody resp)
                   \<lparr>HTTP = Some resp, Meta = None, Data = Some x, Pagination = None\<rparr>))\<rparr>
          else c
      | _ \<Rightarrow> c)"
  proof (cases "client c req")
    case (Inl err)
    then show ?thesis by (simp add: Do_def)
  next
    case (Inr resp)
    show ?thesis
    proof (cases "StatusCode resp = 200")
      case True
      then have "CheckResponse resp = None"
        by (simp add: CheckResponse_None_iff)
      with Inr True show ?thesis
        by (cases v) (simp_all add: Do_def Let_def split: prod.splits)
    next
      case False
      then obtain e where "CheckResponse resp = Some e"
        using CheckResponse_None_iff [of resp] by blast
      with Inr False show ?thesis
        by (cases v) (simp_all add: Do_def)
    qed
  qed
  have "\<exists>resp x. client c req = Inr resp \<and> StatusCode resp = 200 \<and> v = Some x"
    if "Response (fst (Do Decode c req v)) \<noteq> Response c"
    using that unfolding eq
    by (cases "client c req"; cases v) (auto split: if_splits)
  with eq show ?thesis by blast
qed

text \<open>
  A call that passes the check with a target fills the slot; the same call without a
  target, a call answered with status 404 and a call whose transport fails leave it
  empty.
\<close>

theorem Do_Response_slot_witness:
  "Response (fst (Do (\<lambda>b r. (r\<lparr>Meta := Some \<lparr>ErrorType = [], Code = 200, ErrorMessage = []\<rparr>\<rparr>, None))
                 (example_client (\<lambda>req. Inr (reply 200 ''{\"meta\":{\"code\":200}}'')))
                 example_request (Some ())))
   = Some \<lparr>HTTP = Some (reply 200 ''{\"meta\":{\"code\":200}}''),
           Meta = Some \<lparr>ErrorType = [], Code = 200, ErrorMessage = []\<rparr>,
           Data = Some (), Pagination = None\<rparr>
   \<and> Response (fst (Do (\<lambda>b r. (r, None))
                   (example_client (\<lambda>req. Inr (reply 200 ''{\"meta\":{\"code\":200}}'')))
                   example_request None)) = None
   \<and> Response (fst (Do (\<lambda>b r. (r, None)) (example_client (\<lambda>req. Inr (reply 404 [])))
                   example_request (Some ()))) = None
   \<and> Response (fst (Do (\<lambda>b r. (r, None))
                   (example_client (\<lambda>req. Inl (LibraryError ''connection refused'')))
                   example_request (Some ()))) = None
   \<and> (\<exists>resp x. client (example_client (\<lambda>req. Inr (reply 200 ''{\"meta\":{\"code\":200}}'')))
                     example_request = Inr resp
                 \<and> StatusCode resp = 200 \<and> Some () = Some x)"
  using
    Do_Response_slot [of "\<lambda>b r. (r\<lparr>Meta := Some \<lparr>ErrorType = [], Code = 200, ErrorMessage = []\<rparr>\<rparr>, None)"
      "example_client (\<lambda>req. Inr (reply 200 ''{\"meta\":{\"code\":200}}''))" example_request
      "Some ()", THEN conjunct2]
    Do_Response_slot [of "\<lambda>b r. (r\<lparr>Meta := Some \<lparr>ErrorType = [], Code = 200, ErrorMessage = []\<rparr>\<rparr>, None)"
      "example_client (\<lambda>req. Inr (reply 200 ''{\"meta\":{\"code\":200}}''))" example_request
      "Some ()", THEN conjunct1]
    Do_Response_slot [of "\<lambda>b r. (r, None)"
      "example_client (\<lambda>req. Inr (reply 200 ''{\"meta\":{\"code\":200}}''))" example_request
      None, THEN conjunct1]
    Do_Response_slot [of "\<lambda>b r. (r, None)" "example_client (\<lambda>req. Inr (reply 404 []))"
      example_request "Some ()", THEN conjunct1]
    Do_Response_slot [of "\<lambda>b r. (r, None)"
      "example_client (\<lambda>req. Inl (LibraryError ''connection refused''))" example_request
      "Some ()", THEN conjunct1]
  by simp

section \<open>Properties of the request builder\<close>

lemma Values_Get_Set: "Values_Get (Values_Set q a v) b = (if b = a then v else Values_Get q b)"
  by (simp add: Values_Get_def Values_Set_def)

lemma NewRequest_query_apply:
  "NewRequest_query c q k =
     (if k = ''access_token'' \<and> AccessToken c \<noteq> [] \<and> Values_Get q ''access_token'' = []
        then Some [AccessToken c]
      else if k = ''client_id'' \<and> ClientID c \<noteq> [] \<and> Values_Get q ''client_id'' = []
        then Some [ClientID c]
      else if k = ''client_secret'' \<and> ClientSecret c \<noteq> [] \<and> Values_Get q ''client_secret'' = []
        then Some [ClientSecret c]
      else q k)"
  by (simp add: NewRequest_query_def Let_def Values_Get_Set) (simp add: Values_Set_def)

lemma NewRequest_Inr:
  assumes "NewRequest L c method urlStr body = Inr req"
  shows "\<exists>rel req0. url_Parse L urlStr = Inr rel
           \<and> http_NewRequest L method
                (URL_String L ((ResolveReference L (BaseURL c) rel)
                   \<lparr>RawQuery := Encode L (NewRequest_query c
                                  (Query L (ResolveReference L (BaseURL c) rel)))\<rparr>)) body
              = Inr req0"
  using assms unfolding NewRequest_def Let_def
  by (auto split: sum.splits)

text \<open>
  Claim C3, as stated, fails: a parameter that the URL carries with an empty first value
  counts as missing. For \<open>?access_token=\<close> the parameter is present and is still
  set; for \<open>?access_token=&access_token=abc\<close> the value \<open>abc\<close> is replaced.
\<close>

theorem NewRequest_overwrites_empty_counterexample:
  "[''access_token'' \<mapsto> [[]]] ''access_token'' \<noteq> None
   \<and> NewRequest_query (example_client (\<lambda>req. Inr (reply 200 [])))
        [''access_token'' \<mapsto> [[]]] ''access_token''
     = Some [''token'']
   \<and> NewRequest_query (example_client (\<lambda>req. Inr (reply 200 [])))
        [''access_token'' \<mapsto> [[], ''abc'']] ''access_token''
     = Some [''token'']"
  by (simp add: NewRequest_query_def Values_Get_def Values_Set_def)

text \<open>
  Claim C3, amended: in the query \<open>q\<close> of the resolved URL, each of the three
  parameters is set to its credential exactly when the credential is not empty and
  \<open>q.Get\<close> of the parameter is empty (the parameter is absent, or its first value is
  the empty string); otherwise its values are those of \<open>q\<close>. Each rule looks only at
  its own credential and its own parameter, a parameter whose first value is not empty
  keeps its values, and every other parameter is as in \<open>q\<close>. When \<open>NewRequest\<close>
  succeeds, the URL it hands to \<open>http.NewRequest\<close> carries the encoding of exactly
  this query.
\<close>

theorem NewRequest_credentials:
  "NewRequest_query c q k =
     (if k = ''access_token'' \<and> AccessToken c \<noteq> [] \<and> Values_Get q ''access_token'' = []
        then Some [AccessToken c]
      else if k = ''client_id'' \<and> ClientID c \<noteq> [] \<and> Values_Get q ''client_id'' = []
        then Some [ClientID c]
      else if k = ''client_secret'' \<and> ClientSecret c \<noteq> [] \<and> Values_Get q ''client_secret'' = []
        then Some [ClientSecret c]
      else q k)
   \<and> (Values_Get q k \<noteq> [] \<longrightarrow> NewRequest_query c q k = q k)
   \<and> (NewRequest L c method urlStr body = Inr req \<longrightarrow>
        (\<exists>rel req0. url_Parse L urlStr = Inr rel
           \<and> http_NewRequest L method
                (URL_String L ((ResolveReference L (BaseURL c) rel)
                   \<lparr>RawQuery := Encode L (NewRequest_query c
                                  (Query L (ResolveReference L (BaseURL c) rel)))\<rparr>)) body
              = Inr req0))"
proof (intro conjI impI)
  show "NewRequest_query c q k =
     (if k = ''access_token'' \<and> AccessToken c \<noteq> [] \<and> Values_Get q ''access_token'' = []
        then Some [AccessToken c]
      else if k = ''client_id'' \<and> ClientID c \<noteq> [] \<and> Values_Get q ''client_id'' = []
        then Some [ClientID c]
      else if k = ''client_secret'' \<and> ClientSecret c \<noteq> [] \<and> Values_Get q ''client_secret'' = []
        then Some [ClientSecret c]
      else q k)"
    by (rule NewRequest_query_apply)
next
  assume "Values_Get q k \<noteq> []"
  then show "NewRequest_query c q k = q k"
    by (auto simp: NewRequest_query_apply)
next
  assume "NewRequest L c method urlStr body = Inr req"
  then show "\<exists>rel req0. url_Parse L urlStr = Inr rel
           \<and> http_NewRequest L method
                (URL_String L ((ResolveReference L (BaseURL c) rel)
                   \<lparr>RawQuery := Encode L (NewRequest_query c
                                  (Query L (ResolveReference L (BaseURL c) rel)))\<rparr>)) body
              = Inr req0"
    by (rule NewRequest_Inr)
qed

text \<open>
  With all three credentials configured and a URL that already carries a
  \<open>client_id\<close>, the token and the secret are added and the \<open>client_id\<close> and the
  \<open>count\<close> of the caller stay.
\<close>

theorem NewRequest_credentials_witness:
  "NewRequest_query (example_client (\<lambda>req. Inr (reply 200 [])))
     [''count'' \<mapsto> [''5''], ''client_id'' \<mapsto> [''mine'']] ''client_id'' = Some [''mine'']
   \<and> NewRequest_query (example_client (\<lambda>req. Inr (reply 200 [])))
        [''count'' \<mapsto> [''5''], ''client_id'' \<mapsto> [''mine'']] ''access_token'' = Some [''token'']
   \<and> NewRequest_query (example_client (\<lambda>req. Inr (reply 200 [])))
        [''count'' \<mapsto> [''5''], ''client_id'' \<mapsto> [''mine'']] ''client_secret'' = Some [''secret'']
   \<and> NewRequest_query (example_client (\<lambda>req. Inr (reply 200 [])))
        [''count'' \<mapsto> [''5''], ''client_id'' \<mapsto> [''mine'']] ''count'' = Some [''5'']
   \<and> (\<exists>rel req0. url_Parse stub_lib ''tags/nature'' = Inr rel
         \<and> http_NewRequest stub_lib ''GET''
              (URL_String stub_lib ((ResolveReference stub_lib api_base rel)
                 \<lparr>RawQuery := Encode stub_lib
                    (NewRequest_query (example_client (\<lambda>req. Inr (reply 200 [])))
                       (Query stub_lib (ResolveReference stub_lib api_base rel)))\<rparr>)) []
            = Inr req0)"
  using
    NewRequest_credentials [of "example_client (\<lambda>req. Inr (reply 200 []))"
      "[''count'' \<mapsto> [''5''], ''client_id'' \<mapsto> [''mine'']]" "''client_id''" stub_lib "''GET''"
      "''tags/nature''" "[]"
      "projr (NewRequest stub_lib (example_client (\<lambda>req. Inr (reply 200 []))) ''GET''
                ''tags/nature'' [])"]
    NewRequest_credentials [of "example_client (\<lambda>req. Inr (reply 200 []))"
      "[''count'' \<mapsto> [''5''], ''client_id'' \<mapsto> [''mine'']]" "''access_token''", THEN conjunct1]
    NewRequest_credentials [of "example_client (\<lambda>req. Inr (reply 200 []))"
      "[''count'' \<mapsto> [''5''], ''client_id'' \<mapsto> [''mine'']]" "''client_secret''", THEN conjunct1]
    NewRequest_credentials [of "example_client (\<lambda>req. Inr (reply 200 []))"
      "[''count'' \<mapsto> [''5''], ''client_id'' \<mapsto> [''mine'']]" "''count''", THEN conjunct1]
  by (simp add: Values_Get_def NewRequest_def Let_def)

section \<open>Properties of the signed forwarded-address token\<close>

lemma length_sha_round: "length (sha_round s kw) = length s"
  by (cases "(s, kw)" rule: sha_round.cases) (simp_all add: Let_def)

lemma length_foldl_sha_round: "length (foldl sha_round s xs) = length s"
  by (induction xs arbitrary: s) (simp_all add: length_sha_round)

lemma length_compress: "length (compress hs b) = length hs"
  by (simp add: compress_def length_foldl_sha_round)

lemma length_foldl_compress: "length (foldl compress hs bs) = length hs"
  by (induction bs arbitrary: hs) (simp_all add: length_compress)

lemma length_concat_be32: "length (concat (map be32 ws)) = 4 * length ws"
  by (induction ws) (simp_all add: be32_def)

lemma length_sha256: "length (sha256 m) = 32"
  by (simp add: sha256_def length_concat_be32 length_foldl_compress init_hash_def)

lemma length_hmac_sha256: "length (hmac sha256 64 k m) = 32"
  by (simp add: hmac_def Let_def length_sha256)

lemma length_EncodeToString: "length (EncodeToString bs) = 2 * length bs"
  by (induction bs) (simp_all add: EncodeToString_def)

lemma hexdigit_inj: "a < 16 \<Longrightarrow> b < 16 \<Longrightarrow> hexdigit a = hexdigit b \<Longrightarrow> a = b"
proof -
  assume a: "a < 16" and b: "b < 16" and eq: "hexdigit a = hexdigit b"
  have d: "distinct ''0123456789abcdef''" by simp
  from a b eq show ?thesis
    unfolding hexdigit_def
    using d nth_eq_iff_index_eq [OF d, of a b] by simp
qed

lemma byte_lt_256: "byte c < 256"
  by (simp add: byte_def)

lemma byte_inj: "byte a = byte b \<Longrightarrow> a = b"
  by (simp add: byte_def)

lemma EncodeToString_inj: "EncodeToString xs = EncodeToString ys \<Longrightarrow> xs = ys"
proof (induction xs arbitrary: ys)
  case Nil
  then show ?case
    using length_EncodeToString [of ys] by (simp add: EncodeToString_def)
next
  case (Cons x xs)
  then obtain y ys' where ys: "ys = y # ys'"
    using length_EncodeToString [of ys] length_EncodeToString [of "x # xs"]
    by (cases ys) auto
  from Cons.prems ys have h: "hexdigit (byte x div 16) = hexdigit (byte y div 16)"
    and l: "hexdigit (byte x mod 16) = hexdigit (byte y mod 16)"
    and rest: "EncodeToString xs = EncodeToString ys'"
    by (simp_all add: EncodeToString_def)
  have "byte x div 16 = byte y div 16"
    using h byte_lt_256 [of x] byte_lt_256 [of y] by (intro hexdigit_inj) auto
  moreover have "byte x mod 16 = byte y mod 16"
    using l by (intro hexdigit_inj) auto
  ultimately have "byte x = byte y"
    by (metis div_mult_mod_eq)
  then have "x = y" by (rule byte_inj)
  with Cons.IH [OF rest] ys show ?case by simp
qed

lemma hmac_zero_padding:
  assumes "length k < bs"
  shows "hmac H bs (k @ [CHR 0x00]) m = hmac H bs k m"
proof -
  have "bs - length k = Suc (bs - Suc (length k))"
    using assms by simp
  then have "replicate (bs - length k) (CHR 0x00)
             = CHR 0x00 # replicate (bs - Suc (length k)) (CHR 0x00)"
    by simp
  then have pad: "(k @ [CHR 0x00]) @ replicate (bs - length (k @ [CHR 0x00])) (CHR 0x00)
                  = k @ replicate (bs - length k) (CHR 0x00)"
    by simp
  have short: "\<not> bs < length (k @ [CHR 0x00])" "\<not> bs < length k"
    using assms by simp_all
  show ?thesis
    unfolding hmac_def Let_def
    by (simp only: short if_False pad)
qed

text \<open>
  Claim C5, as stated, fails: HMAC pads a key shorter than the block with zero bytes, so
  a secret and the same secret followed by a zero byte sign every address alike.
  Changing the secret in this way does not change the token.
\<close>

theorem ComputeXInstaForwardedFor_secret_counterexample:
  "ClientSecret (example_client (\<lambda>req. Inr (reply 200 [])))
   \<noteq> ClientSecret ((example_client (\<lambda>req. Inr (reply 200 [])))\<lparr>ClientSecret := ''secret'' @ [CHR 0x00]\<rparr>)
   \<and> ComputeXInstaForwardedFor (example_client (\<lambda>req. Inr (reply 200 [])))
     = ComputeXInstaForwardedFor
         ((example_client (\<lambda>req. Inr (reply 200 [])))\<lparr>ClientSecret := ''secret'' @ [CHR 0x00]\<rparr>)"
  using hmac_zero_padding [of "''secret''" 64 sha256 "''1.2.3.4''"]
  by (simp add: ComputeXInstaForwardedFor_def)

text \<open>
  Claim C5, amended: the token depends only on the forwarded address and the secret. It
  is empty for an empty address, and otherwise the address, a bar and the 64 hexadecimal
  digits of the HMAC-SHA256 of the address under the secret. Two clients have the same
  token exactly when their addresses are equal and, unless the address is empty, the two
  secrets give the same HMAC of it; so changing the address always changes the token,
  and changing the secret changes it exactly when it changes the HMAC.
\<close>

theorem ComputeXInstaForwardedFor_token:
  "ComputeXInstaForwardedFor c =
     (if XInstaForwardedFor c = [] then []
      else XInstaForwardedFor c @ ''|''
           @ EncodeToString (hmac sha256 64 (ClientSecret c) (XInstaForwardedFor c)))
   \<and> length (EncodeToString (hmac sha256 64 (ClientSecret c) (XInstaForwardedFor c))) = 64
   \<and> (ComputeXInstaForwardedFor c = ComputeXInstaForwardedFor c' \<longleftrightarrow>
        XInstaForwardedFor c = XInstaForwardedFor c'
        \<and> (XInstaForwardedFor c = []
           \<or> hmac sha256 64 (ClientSecret c) (XInstaForwardedFor c)
             = hmac sha256 64 (ClientSecret c') (XInstaForwardedFor c)))"
proof (intro conjI)
  show "ComputeXInstaForwardedFor c =
     (if XInstaForwardedFor c = [] then []
      else XInstaForwardedFor c @ ''|''
           @ EncodeToString (hmac sha256 64 (ClientSecret c) (XInstaForwardedFor c)))"
    by (simp add: ComputeXInstaForwardedFor_def)
next
  show "length (EncodeToString (hmac sha256 64 (ClientSecret c) (XInstaForwardedFor c))) = 64"
    by (simp add: length_EncodeToString length_hmac_sha256)
next
  let ?a = "XInstaForwardedFor c" and ?a' = "XInstaForwardedFor c'"
  let ?h = "EncodeToString (hmac sha256 64 (ClientSecret c) ?a)"
  let ?h' = "EncodeToString (hmac sha256 64 (ClientSecret c') ?a')"
  have len: "length ?h = length ?h'"
    by (simp add: length_EncodeToString length_hmac_sha256)
  show "ComputeXInstaForwardedFor c = ComputeXInstaForwardedFor c' \<longleftrightarrow>
        ?a = ?a'
        \<and> (?a = [] \<or> hmac sha256 64 (ClientSecret c) ?a = hmac sha256 64 (ClientSecret c') ?a)"
  proof
    assume eq: "ComputeXInstaForwardedFor c = ComputeXInstaForwardedFor c'"
    show "?a = ?a' \<and> (?a = [] \<or> hmac sha256 64 (ClientSecret c) ?a = hmac sha256 64 (ClientSecret c') ?a)"
    proof (cases "?a = [] \<or> ?a' = []")
      case True
      with eq show ?thesis
        by (auto simp: ComputeXInstaForwardedFor_def split: if_splits)
    next
      case False
      with eq have "?a @ (''|'' @ ?h) = ?a' @ (''|'' @ ?h')"
        by (simp add: ComputeXInstaForwardedFor_def)
      moreover from len have "length (''|'' @ ?h) = length (''|'' @ ?h')"
        by simp
      ultimately have "?a = ?a' \<and> ''|'' @ ?h = ''|'' @ ?h'"
        using append_eq_append_conv [of ?a ?a' "''|'' @ ?h" "''|'' @ ?h'"] by blast
      then have a: "?a = ?a'" and h: "?h = ?h'"
        by blast+
      from h have "hmac sha256 64 (ClientSecret c) ?a = hmac sha256 64 (ClientSecret c') ?a'"
        by (rule EncodeToString_inj)
      with a show ?thesis
        by simp
    qed
  next
    assume "?a = ?a' \<and> (?a = [] \<or> hmac sha256 64 (ClientSecret c) ?a = hmac sha256 64 (ClientSecret c') ?a)"
    then show "ComputeXInstaForwardedFor c = ComputeXInstaForwardedFor c'"
      by (auto simp: ComputeXInstaForwardedFor_def)
  qed
qed

section \<open>Properties of the tag-name check\<close>

text \<open>
  Claim C7, as stated, fails: \<open>validTagName\<close> accepts \<open>a_b\<close>, although the
  underscore is neither a letter nor a digit.
\<close>

theorem validTagName_underscore_counterexample:
  "fst (validTagName ''a_b'') \<and> \<not> list_all is_alphanumeric ''a_b''"
  by (simp add: validTagName_def MatchString_NotWord_def is_word_char_def is_alphanumeric_def
      is_digit_def is_upper_def is_lower_def byte_def)

text \<open>
  Claim C7, amended: \<open>validTagName\<close> never fails, and it accepts a string exactly
  when every byte of it is an ASCII letter, an ASCII digit or the underscore. It accepts
  \<open>nature\<close> and \<open>travel2024\<close> and rejects \<open>na-ture\<close>, \<open>travel 2024\<close> and
  \<open>#tag\<close>.
\<close>

theorem validTagName_word_chars:
  "validTagName s = (list_all is_word_char s, None)
   \<and> fst (validTagName ''nature'') \<and> fst (validTagName ''travel2024'')
   \<and> \<not> fst (validTagName ''na-ture'') \<and> \<not> fst (validTagName ''travel 2024'')
   \<and> \<not> fst (validTagName ''#tag'')"
  by (simp add: validTagName_def MatchString_NotWord_def is_word_char_def
      is_digit_def is_upper_def is_lower_def byte_def list_ex_iff list_all_iff)

section \<open>Properties of the rate-limit accessor\<close>

lemma Atoi_not_numeric:
  "\<not> numeric s \<Longrightarrow> Atoi s = (0, Some \<lparr>Func = ''Atoi'', Num = s, Err = ErrSyntax\<rparr>)"
  by (cases s) (auto simp: numeric_def Atoi_def ParseInt_def Let_def split: if_splits)

lemma Atoi_numeric:
  assumes "numeric s" "- (2 ^ 63) \<le> decimal s" "decimal s < 2 ^ 63"
  shows "Atoi s = (decimal s, None)"
proof (cases s)
  case Nil
  with assms show ?thesis by (simp add: numeric_def)
next
  case (Cons c cs)
  show ?thesis
  proof (cases "c = CHR ''-''")
    case True
    with assms Cons show ?thesis
      by (simp add: numeric_def decimal_def Atoi_def ParseInt_def Let_def)
  next
    case False
    show ?thesis
    proof (cases "c = CHR ''+''")
      case True
      with assms Cons show ?thesis
        by (simp add: numeric_def decimal_def Atoi_def ParseInt_def Let_def)
    next
      case False
      with assms Cons \<open>c \<noteq> CHR ''-''\<close> show ?thesis
        by (simp add: numeric_def decimal_def Atoi_def ParseInt_def Let_def)
    qed
  qed
qed

lemma Atoi_error: "snd (Atoi s) = Some e \<Longrightarrow> Func e = ''Atoi'' \<and> Num e = s"
  by (auto simp: Atoi_def split: prod.splits option.splits)

lemma Header_Get_absent: "h k = None \<Longrightarrow> Header_Get h k = []"
  by (simp add: Header_Get_def)

lemma not_numeric_Nil: "\<not> numeric []"
  by (simp add: numeric_def)

lemma GetRatelimit_unfold:
  assumes "HTTP r = Some resp"
  shows "GetRatelimit r =
     Inr (if snd (Atoi (Header_Get (Header resp) ''X-Ratelimit-Limit'')) \<noteq> None
          then (\<lparr>Limit = fst (Atoi (Header_Get (Header resp) ''X-Ratelimit-Limit'')), Remaining = 0\<rparr>,
                snd (Atoi (Header_Get (Header resp) ''X-Ratelimit-Limit'')))
          else (\<lparr>Limit = fst (Atoi (Header_Get (Header resp) ''X-Ratelimit-Limit'')),
                 Remaining = fst (Atoi (Header_Get (Header resp) ''X-Ratelimit-Remaining''))\<rparr>,
                snd (Atoi (Header_Get (Header resp) ''X-Ratelimit-Remaining''))))"
  using assms by (simp add: GetRatelimit_def Let_def split: prod.splits)

text \<open>
  Claim C8: on an envelope that holds its HTTP response, \<open>GetRatelimit\<close> returns the
  pair of integers the two headers denote when both are numeric and within the 64-bit
  range, and it returns a \<open>strconv.Atoi\<close> error naming the offending header value
  whenever a header is absent or not numeric.
\<close>

theorem GetRatelimit_parses_headers:
  assumes "HTTP r = Some resp"
    and "l = Header_Get (Header resp) ''X-Ratelimit-Limit''"
    and "m = Header_Get (Header resp) ''X-Ratelimit-Remaining''"
  shows "(numeric l \<and> - (2 ^ 63) \<le> decimal l \<and> decimal l < 2 ^ 63
          \<and> numeric m \<and> - (2 ^ 63) \<le> decimal m \<and> decimal m < 2 ^ 63
          \<longrightarrow> GetRatelimit r = Inr (\<lparr>Limit = decimal l, Remaining = decimal m\<rparr>, None))
       \<and> (Header resp ''X-Ratelimit-Limit'' = None \<or> Header resp ''X-Ratelimit-Remaining'' = None
          \<or> \<not> numeric l \<or> \<not> numeric m
          \<longrightarrow> (\<exists>rl e. GetRatelimit r = Inr (rl, Some e) \<and> Func e = ''Atoi'' \<and> (Num e = l \<or> Num e = m)))"
proof (intro conjI impI)
  assume ok: "numeric l \<and> - (2 ^ 63) \<le> decimal l \<and> decimal l < 2 ^ 63
          \<and> numeric m \<and> - (2 ^ 63) \<le> decimal m \<and> decimal m < 2 ^ 63"
  then have "Atoi l = (decimal l, None)" and "Atoi m = (decimal m, None)"
    by (simp_all add: Atoi_numeric)
  then show "GetRatelimit r = Inr (\<lparr>Limit = decimal l, Remaining = decimal m\<rparr>, None)"
    using GetRatelimit_unfold [OF assms(1)] assms(2,3) by simp
next
  assume "Header resp ''X-Ratelimit-Limit'' = None \<or> Header resp ''X-Ratelimit-Remaining'' = None
          \<or> \<not> numeric l \<or> \<not> numeric m"
  then have bad: "\<not> numeric l \<or> \<not> numeric m"
    using assms(2,3) by (auto simp: Header_Get_absent not_numeric_Nil)
  show "\<exists>rl e. GetRatelimit r = Inr (rl, Some e) \<and> Func e = ''Atoi'' \<and> (Num e = l \<or> Num e = m)"
  proof (cases "numeric l")
    case False
    then have "Atoi l = (0, Some \<lparr>Func = ''Atoi'', Num = l, Err = ErrSyntax\<rparr>)"
      by (rule Atoi_not_numeric)
    then show ?thesis
      using GetRatelimit_unfold [OF assms(1)] assms(2) by simp
  next
    case True
    with bad have "Atoi m = (0, Some \<lparr>Func = ''Atoi'', Num = m, Err = ErrSyntax\<rparr>)"
      by (simp add: Atoi_not_numeric)
    then show ?thesis
      using GetRatelimit_unfold [OF assms(1)] assms(2,3)
      by (cases "snd (Atoi l) = None") (auto dest: Atoi_error)
  qed
qed

text \<open>
  The headers \<open>5000\<close> and \<open>4999\<close> give the pair (5000, 4999); without the second
  header the accessor fails.
\<close>

theorem GetRatelimit_parses_headers_witness:
  "GetRatelimit
     \<lparr>HTTP = Some \<lparr>StatusCode = 200,
                   Header = [''X-Ratelimit-Limit'' \<mapsto> [''5000''],
                             ''X-Ratelimit-Remaining'' \<mapsto> [''4999'']],
                   ResponseBody = \<lparr>content = [], read_error = None\<rparr>\<rparr>,
      Meta = None, Data = None :: unit option, Pagination = None\<rparr>
   = Inr (\<lparr>Limit = 5000, Remaining = 4999\<rparr>, None)
   \<and> (\<exists>rl e. GetRatelimit
          \<lparr>HTTP = Some \<lparr>StatusCode = 200, Header = [''X-Ratelimit-Limit'' \<mapsto> [''5000'']],
                        ResponseBody = \<lparr>content = [], read_error = None\<rparr>\<rparr>,
           Meta = None, Data = None :: unit option, Pagination = None\<rparr>
        = Inr (rl, Some e) \<and> Func e = ''Atoi'' \<and> (Num e = ''5000'' \<or> Num e = []))"
  using
    GetRatelimit_parses_headers
      [of "\<lparr>HTTP = Some \<lparr>StatusCode = 200,
                   Header = [''X-Ratelimit-Limit'' \<mapsto> [''5000''],
                             ''X-Ratelimit-Remaining'' \<mapsto> [''4999'']],
                   ResponseBody = \<lparr>content = [], read_error = None\<rparr>\<rparr>,
            Meta = None, Data = None :: unit option, Pagination = None\<rparr>"
          "\<lparr>StatusCode = 200,
            Header = [''X-Ratelimit-Limit'' \<mapsto> [''5000''],
                      ''X-Ratelimit-Remaining'' \<mapsto> [''4999'']],
            ResponseBody = \<lparr>content = [], read_error = None\<rparr>\<rparr>"
          "''5000''" "''4999''", THEN conjunct1]
    GetRatelimit_parses_headers
      [of "\<lparr>HTTP = Some \<lparr>StatusCode = 200, Header = [''X-Ratelimit-Limit'' \<mapsto> [''5000'']],
                        ResponseBody = \<lparr>content = [], read_error = None\<rparr>\<rparr>,
            Meta = None, Data = None :: unit option, Pagination = None\<rparr>"
          "\<lparr>StatusCode = 200, Header = [''X-Ratelimit-Limit'' \<mapsto> [''5000'']],
            ResponseBody = \<lparr>content = [], read_error = None\<rparr>\<rparr>"
          "''5000''" "[]", THEN conjunct2]
  by (simp add: Atoi_def ParseInt_def Let_def is_digit_def byte_def parse_digits_def
      digit_val_def numeric_def decimal_def Header_Get_def)

section \<open>Properties of the recent-media wrapper\<close>

text \<open>
  Claim C9: for a tag name that \<open>validTagName\<close> rejects, \<open>RecentMedia\<close> returns
  an empty, non-nil list of media, a pagination value whose fields are empty, and no
  error. The result is the same for every library, decoder and transport and the
  client is unchanged: no request is built or sent.
\<close>

theorem RecentMedia_invalid_tag:
  "\<not> fst (validTagName tagName) \<Longrightarrow>
   RecentMedia L Decode c tagName opt =
     Inr (c, Some [], Some \<lparr>NextURL = [], NextMaxID = []\<rparr>, None)"
proof -
  assume "\<not> fst (validTagName tagName)"
  moreover have "snd (validTagName tagName) = None"
    by (simp add: validTagName_def)
  ultimately have "validTagName tagName = (False, None)"
    by (cases "validTagName tagName") simp
  then show ?thesis
    by (simp add: RecentMedia_def)
qed

theorem RecentMedia_invalid_tag_witness:
  "\<forall>L Decode c opt.
     RecentMedia L Decode (c :: 'm list option Client) ''na-ture'' opt =
       Inr (c, Some [], Some \<lparr>NextURL = [], NextMaxID = []\<rparr>, None)"
proof -
  have "\<not> fst (validTagName ''na-ture'')"
    by (simp add: validTagName_def MatchString_NotWord_def is_word_char_def is_digit_def
        is_upper_def is_lower_def byte_def)
  then show ?thesis
    using RecentMedia_invalid_tag [of "''na-ture''"] by blast
qed

end
